theory Spec2Isabelle
  imports Main "HOL-Library.Sublist"
begin

section \<open>Shared helper functions of the Geo SDK tutorial (src/functions.ts)\<close>

text \<open>
  The helpers are asynchronous TypeScript functions that talk to three outside parties:
  the Geo SDK (wallet clients, personal-space and DAO-space calls), a viem public client
  (transaction receipts, the space registry contract) and the GraphQL API reached with
  \<open>fetch\<close>. The embedding keeps the helpers' control flow as it is written and makes
  the outside parties explicit:
  \<^item> the outside world is a state of an arbitrary type \<open>'w\<close>; every outside call is a
    function that takes the world and returns an outcome and the next world, so the
    answer of a call may depend on everything that happened before it;
  \<^item> an outcome is \<open>Inl\<close> of the thrown value (a rejected promise) or \<open>Inr\<close> of
    the returned value;
  \<^item> every outside call is appended to a trace together with its outcome, so that
    statements about which calls an invocation made, in which order and with which
    answers, are statements about a list;
  \<^item> \<open>await\<close> sequences two steps and stops at the first thrown value, as an
    \<open>await\<close> inside an \<open>async\<close> function does; \<open>try_catch\<close> is the
    \<open>try { ... } catch (e) { ... }\<close> block.
  Console output is not modelled: no statement below is about it, and
  \<open>console.log\<close>, \<open>console.warn\<close> and \<open>console.error\<close> do not throw.
  The prompt helpers and the operation summaries of functions.ts are not part of the
  development.
\<close>

subsection \<open>JavaScript values\<close>

text \<open>
  A thrown value is an instance of \<open>Error\<close> with its message, or \<open>null\<close> or
  \<open>undefined\<close> (reading a property of it throws), or any other value.
\<close>

datatype thrown = JsError string | JsNullish | JsOther

text \<open>
  Built-ins of the JavaScript engine that the helpers call are parameters of the model:
  \<open>String.prototype.toLowerCase\<close>, \<open>JSON.stringify\<close> on a string, and the
  message of the \<open>TypeError\<close> raised when the named property is read from
  \<open>null\<close> or \<open>undefined\<close> (its wording differs between engines).
\<close>

record js_runtime =
  toLowerCase :: "string \<Rightarrow> string"
  JSON_stringify :: "string \<Rightarrow> string"
  typeErrorMessage :: "string \<Rightarrow> string"

definition TypeError :: "js_runtime \<Rightarrow> string \<Rightarrow> thrown" where
  "TypeError rt property = JsError (typeErrorMessage rt property)"

text \<open>\<open>s.slice(b, e)\<close> for non-negative indices.\<close>

definition slice :: "nat \<Rightarrow> nat \<Rightarrow> string \<Rightarrow> string" where
  "slice b e s = take (e - b) (drop b s)"

text \<open>A number inside a template literal: its decimal digits.\<close>

definition digit :: "nat \<Rightarrow> char" where
  "digit d = char_of (48 + d)"

fun decimal :: "nat \<Rightarrow> string" where
  "decimal n = (if n < 10 then [digit n] else decimal (n div 10) @ [digit (n mod 10)])"

declare decimal.simps [simp del]

subsection \<open>Types of functions.ts\<close>

text \<open>An \<open>Op\<close> of the SDK; the helpers read only its \<open>type\<close> and \<open>id\<close>.\<close>

record op =
  op_type :: string
  op_id :: string

datatype network = TESTNET | MAINNET

record PublishResult =
  success :: bool
  editId :: "string option"
  cid :: "string option"
  transactionHash :: "string option"
  spaceId :: "string option"
  error :: "string option"

record PublishConfig =
  ops :: "op list"
  editName :: string
  privateKey :: string
  useSmartAccount :: "bool option"
  network :: "network option"
  config_spaceId :: "string option"

subsection \<open>What the outside parties return\<close>

record account =
  address :: string

record walletClient =
  account :: "account option"

text \<open>The \<open>{ to, calldata }\<close> of \<open>personalSpace.createSpace()\<close>.\<close>

record tx_call =
  to :: string
  calldata :: string

text \<open>The result of \<open>personalSpace.publishEdit\<close> and \<open>daoSpace.proposeEdit\<close>.\<close>

record edit_result = tx_call +
  edit_cid :: string
  edit_editId :: string

record publishEdit_params =
  pe_name :: string
  pe_spaceId :: string
  pe_ops :: "op list"
  pe_author :: string
  pe_network :: network

record proposeEdit_params =
  pr_name :: string
  pr_ops :: "op list"
  pr_author :: string
  pr_network :: network
  pr_callerSpaceId :: string
  pr_daoSpaceId :: string
  pr_daoSpaceAddress :: string

text \<open>
  The GraphQL answers, typed by the selections of the three queries that functions.ts
  sends: the elements of a list are objects, and the selected fields are strings. A field
  that is \<open>null\<close> or missing is \<open>None\<close>.
\<close>

record member =
  memberSpaceId :: string

record space_node =
  spaceType :: string
  daoAddress :: string
  membersList :: "member list option"
  editorsList :: "member list option"

record space_ref =
  ref_id :: string
  ref_type :: string

record entity =
  entity_id :: string
  entity_name :: "string option"

record gql_data =
  space :: "space_node option"
  spaces :: "space_ref list option"
  search :: "entity list option"

record gql_error =
  message :: string

record gql_json =
  errors :: "gql_error list option"
  data :: "gql_data option"

text \<open>
  A \<open>Response\<close> of \<open>fetch\<close>. \<open>json\<close> is the outcome of \<open>res.json()\<close>:
  \<open>Inl m\<close> when it rejects (with a \<open>SyntaxError\<close> or \<open>TypeError\<close> of message
  \<open>m\<close>), \<open>Inr\<close> of the parsed body otherwise.
\<close>

record response =
  ok :: bool
  status :: nat
  statusText :: string
  json :: "string + gql_json"

subsection \<open>Outside calls and their trace\<close>

text \<open>
  \<open>sendTransaction\<close> is called at two places: in \<open>ensurePersonalSpace\<close> with the
  call data of \<open>personalSpace.createSpace()\<close>, and in step 5 of \<open>publishOps\<close>
  with the call data of the published edit. The trace records which.
\<close>

datatype tx_site = CreateSpaceTx | PublishTx

datatype event =
    EvGetSmartAccountWalletClient string "thrown + walletClient"
  | EvGetWalletClient string "thrown + walletClient"
  | EvHasSpace string "thrown + bool"
  | EvCreateSpace "thrown + tx_call"
  | EvSendTransaction tx_site tx_call "thrown + string"
  | EvWaitForTransactionReceipt string "thrown + unit"
  | EvReadContract string "thrown + string"
  | EvFetch string "thrown + response"
  | EvPublishEdit publishEdit_params "thrown + edit_result"
  | EvProposeEdit proposeEdit_params "thrown + edit_result"

text \<open>
  The outside parties. \<open>addressToSpaceId\<close> is \<open>publicClient.readContract\<close> on the
  space registry with \<open>functionName: "addressToSpaceId"\<close>. \<open>fetch\<close> takes the
  query (the request body is \<open>JSON.stringify({ query, variables })\<close>, and no caller in
  functions.ts passes variables); it rejects only with \<open>Error\<close> objects
  (\<open>TypeError\<close>, \<open>DOMException\<close>), so its failure is the message.
\<close>

record 'w sdk =
  getSmartAccountWalletClient :: "string \<Rightarrow> 'w \<Rightarrow> (thrown + walletClient) \<times> 'w"
  getWalletClient :: "string \<Rightarrow> 'w \<Rightarrow> (thrown + walletClient) \<times> 'w"
  hasSpace :: "string \<Rightarrow> 'w \<Rightarrow> (thrown + bool) \<times> 'w"
  createSpace :: "'w \<Rightarrow> (thrown + tx_call) \<times> 'w"
  sendTransaction :: "walletClient \<Rightarrow> tx_call \<Rightarrow> 'w \<Rightarrow> (thrown + string) \<times> 'w"
  waitForTransactionReceipt :: "string \<Rightarrow> 'w \<Rightarrow> (thrown + unit) \<times> 'w"
  addressToSpaceId :: "string \<Rightarrow> 'w \<Rightarrow> (thrown + string) \<times> 'w"
  fetch :: "string \<Rightarrow> 'w \<Rightarrow> (string + response) \<times> 'w"
  publishEdit :: "publishEdit_params \<Rightarrow> 'w \<Rightarrow> (thrown + edit_result) \<times> 'w"
  proposeEdit :: "proposeEdit_params \<Rightarrow> 'w \<Rightarrow> (thrown + edit_result) \<times> 'w"

type_synonym ('w, 'a) task = "'w \<times> event list \<Rightarrow> (thrown + 'a) \<times> 'w \<times> event list"

definition resolve :: "'a \<Rightarrow> ('w, 'a) task" where
  "resolve x s = (Inr x, s)"

definition throw :: "thrown \<Rightarrow> ('w, 'a) task" where
  "throw e s = (Inl e, s)"

definition await :: "('w, 'a) task \<Rightarrow> ('a \<Rightarrow> ('w, 'b) task) \<Rightarrow> ('w, 'b) task" where
  "await m k s = (case m s of (Inl e, s') \<Rightarrow> (Inl e, s') | (Inr x, s') \<Rightarrow> k x s')"

definition try_catch :: "('w, 'a) task \<Rightarrow> (thrown \<Rightarrow> ('w, 'a) task) \<Rightarrow> ('w, 'a) task" where
  "try_catch m h s = (case m s of (Inl e, s') \<Rightarrow> h e s' | (Inr x, s') \<Rightarrow> (Inr x, s'))"

text \<open>An outside call: run it on the world and append it, with its outcome, to the trace.\<close>

definition external ::
  "('w \<Rightarrow> (thrown + 'a) \<times> 'w) \<Rightarrow> ((thrown + 'a) \<Rightarrow> event) \<Rightarrow> ('w, 'a) task" where
  "external f ev s =
     (case s of (w, tr) \<Rightarrow> (case f w of (r, w') \<Rightarrow> (r, w', tr @ [ev r])))"

definition rejected :: "string + 'a \<Rightarrow> thrown + 'a" where
  "rejected r = (case r of Inl m \<Rightarrow> Inl (JsError m) | Inr x \<Rightarrow> Inr x)"

subsection \<open>gql\<close>

definition gql :: "js_runtime \<Rightarrow> 'w sdk \<Rightarrow> string \<Rightarrow> ('w, gql_data option) task" where
  "gql rt sdk query =
     await (external (\<lambda>w. case fetch sdk query w of (r, w') \<Rightarrow> (rejected r, w')) (EvFetch query))
       (\<lambda>res.
     if \<not> ok res then
       throw (JsError (''API error: '' @ decimal (status res) @ '' '' @ statusText res))
     else
     await (case json res of Inl m \<Rightarrow> throw (JsError m) | Inr j \<Rightarrow> resolve j) (\<lambda>json'.
     case errors json' of
       Some errs \<Rightarrow>
         (case errs of
            [] \<Rightarrow> throw (TypeError rt ''message'')
          | e # _ \<Rightarrow> throw (JsError (''GraphQL: '' @ message e)))
     | None \<Rightarrow> resolve (data json')))"

subsection \<open>Duplicate-check query helpers\<close>






subsection \<open>Space helpers\<close>

text \<open>
  \<open>createGeoPublicClient()\<close> builds a viem client object and contacts nobody; the
  client's two methods used here are \<open>waitForTransactionReceipt\<close> and
  \<open>addressToSpaceId\<close> of the outside parties.
\<close>

definition ensurePersonalSpace ::
  "js_runtime \<Rightarrow> 'w sdk \<Rightarrow> string \<Rightarrow> walletClient \<Rightarrow> ('w, string) task" where
  "ensurePersonalSpace rt sdk address' walletClient' =
     await (external (hasSpace sdk address') (EvHasSpace address')) (\<lambda>hasSpace'.
     await (if \<not> hasSpace' then
              await (external (createSpace sdk) EvCreateSpace) (\<lambda>tx.
              await (external (sendTransaction sdk walletClient' tx)
                       (EvSendTransaction CreateSpaceTx tx)) (\<lambda>txHash.
              await (external (waitForTransactionReceipt sdk txHash)
                       (EvWaitForTransactionReceipt txHash)) (\<lambda>_.
              resolve ())))
            else resolve ()) (\<lambda>_.
     await (external (addressToSpaceId sdk address') (EvReadContract address')) (\<lambda>spaceIdHex.
     resolve (toLowerCase rt (slice 2 34 spaceIdHex)))))"

subsection \<open>Publishing helper\<close>

definition spaceQuery :: "string \<Rightarrow> string" where
  \<open>spaceQuery spaceId' =
     ''{\<newline>      space(id: "'' @ spaceId' @
     ''") {\<newline>        type\<newline>        address\<newline>        membersList { memberSpaceId }\<newline>        editorsList { memberSpaceId }\<newline>      }\<newline>    }''\<close>

definition callerSpacesQuery :: "string \<Rightarrow> string" where
  \<open>callerSpacesQuery address' =
     ''{\<newline>        spaces(filter: { address: { is: "'' @ address' @
     ''" } }) { id type }\<newline>      }''\<close>

text \<open>\<open>x || y\<close> on an optional string: \<open>undefined\<close> and \<open>""\<close> are falsy.\<close>

definition truthy :: "string option \<Rightarrow> bool" where
  "truthy x = (case x of None \<Rightarrow> False | Some s \<Rightarrow> s \<noteq> [])"

definition publishOps :: "js_runtime \<Rightarrow> 'w sdk \<Rightarrow> PublishConfig \<Rightarrow> ('w, PublishResult) task" where
  "publishOps rt sdk config =
    (let ops' = ops config;
         editName' = editName config;
         privateKey' = privateKey config;
         useSmartAccount' = (case useSmartAccount config of None \<Rightarrow> True | Some b \<Rightarrow> b);
         network' = (case network config of None \<Rightarrow> TESTNET | Some n \<Rightarrow> n)
     in
     try_catch
      (await (if useSmartAccount'
              then external (getSmartAccountWalletClient sdk privateKey')
                     (EvGetSmartAccountWalletClient privateKey')
              else external (getWalletClient sdk privateKey')
                     (EvGetWalletClient privateKey')) (\<lambda>walletClient'.
       await (case account walletClient' of
                None \<Rightarrow> throw (TypeError rt ''address'')
              | Some a \<Rightarrow> resolve (address a)) (\<lambda>address'.
       await (if truthy (config_spaceId config)
              then resolve (the (config_spaceId config))
              else ensurePersonalSpace rt sdk address' walletClient') (\<lambda>spaceId'.
       await (gql rt sdk (spaceQuery spaceId')) (\<lambda>spaceData.
       await (case spaceData of
                None \<Rightarrow> throw (TypeError rt ''space'')
              | Some d \<Rightarrow>
                  (case space d of
                     None \<Rightarrow> throw (JsError (''Space '' @ spaceId' @ '' not found''))
                   | Some sp \<Rightarrow> resolve sp)) (\<lambda>space'.
       await (if spaceType space' = ''PERSONAL'' then
                external (publishEdit sdk
                   \<lparr>pe_name = editName', pe_spaceId = spaceId', pe_ops = ops',
                    pe_author = address', pe_network = network'\<rparr>)
                  (EvPublishEdit
                   \<lparr>pe_name = editName', pe_spaceId = spaceId', pe_ops = ops',
                    pe_author = address', pe_network = network'\<rparr>)
              else
                await (gql rt sdk (callerSpacesQuery address')) (\<lambda>personalSpaceData.
                await (case personalSpaceData of
                         None \<Rightarrow> throw (TypeError rt ''spaces'')
                       | Some d \<Rightarrow>
                           (case (case spaces d of
                                    None \<Rightarrow> None
                                  | Some ss \<Rightarrow> find (\<lambda>s. ref_type s = ''PERSONAL'') ss) of
                              None \<Rightarrow> throw (JsError
                                 (''No personal space found for wallet '' @ address'))
                            | Some callerSpace \<Rightarrow> resolve callerSpace)) (\<lambda>callerSpace.
                let callerSpaceId = ref_id callerSpace;
                    members = (case membersList space' of None \<Rightarrow> [] | Some ms \<Rightarrow> ms);
                    editors = (case editorsList space' of None \<Rightarrow> [] | Some es \<Rightarrow> es);
                    allCandidates = members @ editors;
                    isMemberOrEditor =
                      list_ex (\<lambda>m. memberSpaceId m = callerSpaceId) allCandidates
                in
                if \<not> isMemberOrEditor then
                  throw (JsError (''Your personal space ('' @ callerSpaceId @
                     '') is not a member or editor of DAO space '' @ spaceId'))
                else
                  external (proposeEdit sdk
                     \<lparr>pr_name = editName', pr_ops = ops', pr_author = callerSpaceId,
                      pr_network = network', pr_callerSpaceId = ''0x'' @ callerSpaceId,
                      pr_daoSpaceId = ''0x'' @ spaceId',
                      pr_daoSpaceAddress = daoAddress space'\<rparr>)
                    (EvProposeEdit
                     \<lparr>pr_name = editName', pr_ops = ops', pr_author = callerSpaceId,
                      pr_network = network', pr_callerSpaceId = ''0x'' @ callerSpaceId,
                      pr_daoSpaceId = ''0x'' @ spaceId',
                      pr_daoSpaceAddress = daoAddress space'\<rparr>)))) (\<lambda>result.
       await (external (sendTransaction sdk walletClient'
                          \<lparr>to = to result, calldata = calldata result\<rparr>)
                (EvSendTransaction PublishTx
                          \<lparr>to = to result, calldata = calldata result\<rparr>)) (\<lambda>txHash.
       await (external (waitForTransactionReceipt sdk txHash)
                (EvWaitForTransactionReceipt txHash)) (\<lambda>_.
       resolve \<lparr>success = True, editId = Some (edit_editId result),
                cid = Some (edit_cid result), transactionHash = Some txHash,
                spaceId = Some spaceId', error = None\<rparr>)))))))))
      (\<lambda>error'.
         let errorMessage = (case error' of JsError m \<Rightarrow> m | _ \<Rightarrow> ''Unknown error'')
         in resolve \<lparr>success = False, editId = None, cid = None, transactionHash = None,
                     spaceId = None, error = Some errorMessage\<rparr>))"

subsection \<open>Derived notions used in the statements\<close>

text \<open>
  What \<open>gql\<close> makes of the outcome of its \<open>fetch\<close>: the thrown value, or the
  \<open>data\<close> of the parsed body. \<open>gql_run\<close> below proves that \<open>gql\<close> is the
  \<open>fetch\<close> followed by this function.
\<close>

definition gql_result :: "js_runtime \<Rightarrow> thrown + response \<Rightarrow> thrown + gql_data option" where
  "gql_result rt r =
     (case r of
        Inl e \<Rightarrow> Inl e
      | Inr res \<Rightarrow>
          if \<not> ok res then
            Inl (JsError (''API error: '' @ decimal (status res) @ '' '' @ statusText res))
          else
            (case json res of
               Inl m \<Rightarrow> Inl (JsError m)
             | Inr j \<Rightarrow>
                 (case errors j of
                    Some [] \<Rightarrow> Inl (TypeError rt ''message'')
                  | Some (e # _) \<Rightarrow> Inl (JsError (''GraphQL: '' @ message e))
                  | None \<Rightarrow> Inr (data j))))"

text \<open>
  \<open>post m w tr N E\<close>: running \<open>m\<close> from world \<open>w\<close> and trace \<open>tr\<close> ends
  in a state that satisfies \<open>N\<close> when \<open>m\<close> returns and \<open>E\<close> when it throws.
\<close>

definition post ::
  "('w, 'a) task \<Rightarrow> 'w \<Rightarrow> event list \<Rightarrow> ('a \<Rightarrow> 'w \<Rightarrow> event list \<Rightarrow> bool) \<Rightarrow>
   (thrown \<Rightarrow> 'w \<Rightarrow> event list \<Rightarrow> bool) \<Rightarrow> bool" where
  "post m w tr N E =
     (case m (w, tr) of
        (Inl e, w', tr') \<Rightarrow> E e w' tr'
      | (Inr x, w', tr') \<Rightarrow> N x w' tr')"

text \<open>
  The two halves of the \<open>try\<close> block of \<open>publishOps\<close>, for the proofs: steps 1 and 2
  (wallet client, address, target space id) and steps 3 to 5 (space lookup, publisher,
  transaction). \<open>publishOps_phases\<close> below proves that \<open>publishOps\<close> is the first
  followed by the second, inside the \<open>try\<close>.
\<close>

definition publishOps_target ::
  "js_runtime \<Rightarrow> 'w sdk \<Rightarrow> PublishConfig \<Rightarrow> ('w, walletClient \<times> string \<times> string) task" where
  "publishOps_target rt sdk config =
     await (if (case useSmartAccount config of None \<Rightarrow> True | Some b \<Rightarrow> b)
            then external (getSmartAccountWalletClient sdk (privateKey config))
                   (EvGetSmartAccountWalletClient (privateKey config))
            else external (getWalletClient sdk (privateKey config))
                   (EvGetWalletClient (privateKey config))) (\<lambda>walletClient'.
     await (case account walletClient' of
              None \<Rightarrow> throw (TypeError rt ''address'')
            | Some a \<Rightarrow> resolve (address a)) (\<lambda>address'.
     await (if truthy (config_spaceId config)
            then resolve (the (config_spaceId config))
            else ensurePersonalSpace rt sdk address' walletClient') (\<lambda>spaceId'.
     resolve (walletClient', address', spaceId'))))"

definition publishOps_publish ::
  "js_runtime \<Rightarrow> 'w sdk \<Rightarrow> PublishConfig \<Rightarrow> walletClient \<Rightarrow> string \<Rightarrow> string \<Rightarrow>
   ('w, PublishResult) task" where
  "publishOps_publish rt sdk config walletClient' address' spaceId' =
    (let ops' = ops config;
         editName' = editName config;
         network' = (case network config of None \<Rightarrow> TESTNET | Some n \<Rightarrow> n)
     in
       await (gql rt sdk (spaceQuery spaceId')) (\<lambda>spaceData.
       await (case spaceData of
                None \<Rightarrow> throw (TypeError rt ''space'')
              | Some d \<Rightarrow>
                  (case space d of
                     None \<Rightarrow> throw (JsError (''Space '' @ spaceId' @ '' not found''))
                   | Some sp \<Rightarrow> resolve sp)) (\<lambda>space'.
       await (if spaceType space' = ''PERSONAL'' then
                external (publishEdit sdk
                   \<lparr>pe_name = editName', pe_spaceId = spaceId', pe_ops = ops',
                    pe_author = address', pe_network = network'\<rparr>)
                  (EvPublishEdit
                   \<lparr>pe_name = editName', pe_spaceId = spaceId', pe_ops = ops',
                    pe_author = address', pe_network = network'\<rparr>)
              else
                await (gql rt sdk (callerSpacesQuery address')) (\<lambda>personalSpaceData.
                await (case personalSpaceData of
                         None \<Rightarrow> throw (TypeError rt ''spaces'')
                       | Some d \<Rightarrow>
                           (case (case spaces d of
                                    None \<Rightarrow> None
                                  | Some ss \<Rightarrow> find (\<lambda>s. ref_type s = ''PERSONAL'') ss) of
                              None \<Rightarrow> throw (JsError
                                 (''No personal space found for wallet '' @ address'))
                            | Some callerSpace \<Rightarrow> resolve callerSpace)) (\<lambda>callerSpace.
                let callerSpaceId = ref_id callerSpace;
                    members = (case membersList space' of None \<Rightarrow> [] | Some ms \<Rightarrow> ms);
                    editors = (case editorsList space' of None \<Rightarrow> [] | Some es \<Rightarrow> es);
                    allCandidates = members @ editors;
                    isMemberOrEditor =
                      list_ex (\<lambda>m. memberSpaceId m = callerSpaceId) allCandidates
                in
                if \<not> isMemberOrEditor then
                  throw (JsError (''Your personal space ('' @ callerSpaceId @
                     '') is not a member or editor of DAO space '' @ spaceId'))
                else
                  external (proposeEdit sdk
                     \<lparr>pr_name = editName', pr_ops = ops', pr_author = callerSpaceId,
                      pr_network = network', pr_callerSpaceId = ''0x'' @ callerSpaceId,
                      pr_daoSpaceId = ''0x'' @ spaceId',
                      pr_daoSpaceAddress = daoAddress space'\<rparr>)
                    (EvProposeEdit
                     \<lparr>pr_name = editName', pr_ops = ops', pr_author = callerSpaceId,
                      pr_network = network', pr_callerSpaceId = ''0x'' @ callerSpaceId,
                      pr_daoSpaceId = ''0x'' @ spaceId',
                      pr_daoSpaceAddress = daoAddress space'\<rparr>)))) (\<lambda>result.
       await (external (sendTransaction sdk walletClient'
                          \<lparr>to = to result, calldata = calldata result\<rparr>)
                (EvSendTransaction PublishTx
                          \<lparr>to = to result, calldata = calldata result\<rparr>)) (\<lambda>txHash.
       await (external (waitForTransactionReceipt sdk txHash)
                (EvWaitForTransactionReceipt txHash)) (\<lambda>_.
       resolve \<lparr>success = True, editId = Some (edit_editId result),
                cid = Some (edit_cid result), transactionHash = Some txHash,
                spaceId = Some spaceId', error = None\<rparr>))))))"

text \<open>The \<open>catch\<close> block of \<open>publishOps\<close>.\<close>

definition failure :: "thrown \<Rightarrow> PublishResult" where
  "failure error' =
     \<lparr>success = False, editId = None, cid = None, transactionHash = None, spaceId = None,
      error = Some (case error' of JsError m \<Rightarrow> m | _ \<Rightarrow> ''Unknown error'')\<rparr>"

subsection \<open>Reading a trace\<close>

text \<open>\<open>x || []\<close> on an optional list.\<close>

definition or_empty :: "'a list option \<Rightarrow> 'a list" where
  "or_empty x = (case x of None \<Rightarrow> [] | Some xs \<Rightarrow> xs)"

text \<open>The ids in \<open>membersList\<close> and \<open>editorsList\<close> of a space.\<close>

definition candidateIds :: "space_node \<Rightarrow> string set" where
  "candidateIds sp =
     memberSpaceId ` (set (or_empty (membersList sp)) \<union> set (or_empty (editorsList sp)))"


text \<open>A transaction submitted at the given place.\<close>

fun sent :: "tx_site \<Rightarrow> event \<Rightarrow> bool" where
  "sent site (EvSendTransaction site' _ _) = (site' = site)"
| "sent _ _ = False"

fun is_submission :: "event \<Rightarrow> bool" where
  "is_submission (EvSendTransaction _ _ _) = True"
| "is_submission _ = False"

fun is_publishEdit :: "event \<Rightarrow> bool" where
  "is_publishEdit (EvPublishEdit _ _) = True"
| "is_publishEdit _ = False"

fun is_proposeEdit :: "event \<Rightarrow> bool" where
  "is_proposeEdit (EvProposeEdit _ _) = True"
| "is_proposeEdit _ = False"

fun is_fetch :: "event \<Rightarrow> bool" where
  "is_fetch (EvFetch _ _) = True"
| "is_fetch _ = False"

text \<open>
  The value thrown by the step that an event records, if that step failed: the outside
  call rejected, or, for a \<open>fetch\<close>, \<open>gql\<close> threw on its answer.
\<close>

definition thrown_in :: "thrown + 'a \<Rightarrow> thrown option" where
  "thrown_in r = (case r of Inl e \<Rightarrow> Some e | Inr _ \<Rightarrow> None)"

fun thrown_of :: "js_runtime \<Rightarrow> event \<Rightarrow> thrown option" where
  "thrown_of rt (EvGetSmartAccountWalletClient _ r) = thrown_in r"
| "thrown_of rt (EvGetWalletClient _ r) = thrown_in r"
| "thrown_of rt (EvHasSpace _ r) = thrown_in r"
| "thrown_of rt (EvCreateSpace r) = thrown_in r"
| "thrown_of rt (EvSendTransaction _ _ r) = thrown_in r"
| "thrown_of rt (EvWaitForTransactionReceipt _ r) = thrown_in r"
| "thrown_of rt (EvReadContract _ r) = thrown_in r"
| "thrown_of rt (EvFetch _ r) = thrown_in (gql_result rt r)"
| "thrown_of rt (EvPublishEdit _ r) = thrown_in r"
| "thrown_of rt (EvProposeEdit _ r) = thrown_in r"

text \<open>The events of steps 1 and 2 of \<open>publishOps\<close>.\<close>

fun target_event :: "event \<Rightarrow> bool" where
  "target_event (EvGetSmartAccountWalletClient _ _) = True"
| "target_event (EvGetWalletClient _ _) = True"
| "target_event (EvHasSpace _ _) = True"
| "target_event (EvCreateSpace _) = True"
| "target_event (EvSendTransaction site _ _) = (site = CreateSpaceTx)"
| "target_event (EvWaitForTransactionReceipt _ _) = True"
| "target_event (EvReadContract _ _) = True"
| "target_event _ = False"

text \<open>\<open>personalSpaceData.spaces?.find((s) => s.type === "PERSONAL")\<close>\<close>

definition callerSpaceOf :: "gql_data \<Rightarrow> space_ref option" where
  "callerSpaceOf d =
     (case spaces d of None \<Rightarrow> None | Some ss \<Rightarrow> find (\<lambda>s. ref_type s = ''PERSONAL'') ss)"

text \<open>The message of the error thrown when the membership check fails.\<close>

definition not_member_message :: "string \<Rightarrow> string \<Rightarrow> string" where
  "not_member_message callerSpaceId sid =
     ''Your personal space ('' @ callerSpaceId @
     '') is not a member or editor of DAO space '' @ sid"

text \<open>The events of steps 3 to 5 of \<open>publishOps\<close>.\<close>

fun publish_event :: "event \<Rightarrow> bool" where
  "publish_event (EvFetch _ _) = True"
| "publish_event (EvPublishEdit _ _) = True"
| "publish_event (EvProposeEdit _ _) = True"
| "publish_event (EvSendTransaction site _ _) = (site = PublishTx)"
| "publish_event (EvWaitForTransactionReceipt _ _) = True"
| "publish_event _ = False"

subsection \<open>What the outside parties are asked\<close>

text \<open>\<open>useSmartAccount = true\<close> and \<open>network = "TESTNET"\<close>, the defaults of the configuration.\<close>

definition smart :: "PublishConfig \<Rightarrow> bool" where
  "smart config = (case useSmartAccount config of None \<Rightarrow> True | Some b \<Rightarrow> b)"

definition default_network :: "PublishConfig \<Rightarrow> network" where
  "default_network config = (case network config of None \<Rightarrow> TESTNET | Some n \<Rightarrow> n)"

text \<open>
  The answer of the Wallet Resolver that step 1 asks in world \<open>w\<close>, and the event that
  records the call.
\<close>

definition wallet_answer :: "'w sdk \<Rightarrow> PublishConfig \<Rightarrow> 'w \<Rightarrow> (thrown + walletClient) \<times> 'w" where
  "wallet_answer sdk config w =
     (if smart config then getSmartAccountWalletClient sdk (privateKey config) w
      else getWalletClient sdk (privateKey config) w)"

definition wallet_event :: "PublishConfig \<Rightarrow> thrown + walletClient \<Rightarrow> event" where
  "wallet_event config out =
     (if smart config then EvGetSmartAccountWalletClient (privateKey config) out
      else EvGetWalletClient (privateKey config) out)"

text \<open>The arguments of \<open>personalSpace.publishEdit\<close> and \<open>daoSpace.proposeEdit\<close>.\<close>

definition edit_params :: "PublishConfig \<Rightarrow> string \<Rightarrow> string \<Rightarrow> publishEdit_params" where
  "edit_params config sid a =
     \<lparr>pe_name = editName config, pe_spaceId = sid, pe_ops = ops config, pe_author = a,
      pe_network = default_network config\<rparr>"

definition proposal_params ::
  "PublishConfig \<Rightarrow> string \<Rightarrow> space_node \<Rightarrow> space_ref \<Rightarrow> proposeEdit_params" where
  "proposal_params config sid sp cs =
     \<lparr>pr_name = editName config, pr_ops = ops config, pr_author = ref_id cs,
      pr_network = default_network config, pr_callerSpaceId = ''0x'' @ ref_id cs,
      pr_daoSpaceId = ''0x'' @ sid, pr_daoSpaceAddress = daoAddress sp\<rparr>"

text \<open>
  Conditions on the outside parties alone, from world \<open>w1\<close> on. \<open>space_found\<close>: the
  wallet's address has a personal space and the registry gives its id. \<open>space_created\<close>:
  the address has none, and creating one succeeds (call data, submitted transaction,
  confirmed receipt), after which the registry gives its id. In both, \<open>sid\<close> is the id,
  \<open>w2\<close> the world after the last answer and \<open>evs\<close> the calls with their answers.
\<close>

definition space_found ::
  "js_runtime \<Rightarrow> 'w sdk \<Rightarrow> string \<Rightarrow> 'w \<Rightarrow> string \<Rightarrow> 'w \<Rightarrow> event list \<Rightarrow> bool" where
  "space_found rt sdk a w1 sid w2 evs =
     (case hasSpace sdk a w1 of (has, wa) \<Rightarrow>
      (case has of Inl _ \<Rightarrow> False | Inr b \<Rightarrow> b \<and>
      (case addressToSpaceId sdk a wa of (registered, we) \<Rightarrow>
      (case registered of Inl _ \<Rightarrow> False | Inr hex \<Rightarrow>
         we = w2 \<and> sid = toLowerCase rt (slice 2 34 hex) \<and>
         evs = [EvHasSpace a (Inr True), EvReadContract a (Inr hex)]))))"

definition space_created ::
  "js_runtime \<Rightarrow> 'w sdk \<Rightarrow> walletClient \<Rightarrow> string \<Rightarrow> 'w \<Rightarrow> string \<Rightarrow> 'w \<Rightarrow> event list \<Rightarrow> bool"
  where
  "space_created rt sdk wc a w1 sid w2 evs =
     (case hasSpace sdk a w1 of (has, wa) \<Rightarrow>
      (case has of Inl _ \<Rightarrow> False | Inr b \<Rightarrow> \<not> b \<and>
      (case createSpace sdk wa of (created, wb) \<Rightarrow>
      (case created of Inl _ \<Rightarrow> False | Inr tx \<Rightarrow>
      (case sendTransaction sdk wc tx wb of (sent', wd) \<Rightarrow>
      (case sent' of Inl _ \<Rightarrow> False | Inr h \<Rightarrow>
      (case waitForTransactionReceipt sdk h wd of (receipt, we) \<Rightarrow>
      (case receipt of Inl _ \<Rightarrow> False | Inr _ \<Rightarrow>
      (case addressToSpaceId sdk a we of (registered, wg) \<Rightarrow>
      (case registered of Inl _ \<Rightarrow> False | Inr hex \<Rightarrow>
         wg = w2 \<and> sid = toLowerCase rt (slice 2 34 hex) \<and>
         evs = [EvHasSpace a (Inr False), EvCreateSpace (Inr tx),
                EvSendTransaction CreateSpaceTx tx (Inr h),
                EvWaitForTransactionReceipt h (Inr ()), EvReadContract a (Inr hex)]))))))))))"

text \<open>
  The target space of step 2: the configured \<open>spaceId\<close> when it is a non-empty string,
  and otherwise the personal space of the wallet's address, found or created.
\<close>

definition target_resolved ::
  "js_runtime \<Rightarrow> 'w sdk \<Rightarrow> PublishConfig \<Rightarrow> walletClient \<Rightarrow> string \<Rightarrow> 'w \<Rightarrow> string \<Rightarrow> 'w \<Rightarrow>
   event list \<Rightarrow> bool" where
  "target_resolved rt sdk config wc a w1 sid w2 evs =
     (if truthy (config_spaceId config)
      then config_spaceId config = Some sid \<and> w2 = w1 \<and> evs = []
      else space_found rt sdk a w1 sid w2 evs \<or> space_created rt sdk wc a w1 sid w2 evs)"

subsection \<open>A concrete environment\<close>

text \<open>
  A runtime that lowers ASCII letters, and outside parties whose world is the number of
  calls made so far. The wallet has the address \<open>0xa11ce\<close>; \<open>has\<close> is the answer
  of \<open>personalSpace.hasSpace\<close>, and \<open>d\<close> is the \<open>data\<close> that the GraphQL API
  answers to every query.
\<close>

definition ascii_lower :: "char \<Rightarrow> char" where
  "ascii_lower c =
     (case map_of (zip ''ABCDEFGHIJKLMNOPQRSTUVWXYZ'' ''abcdefghijklmnopqrstuvwxyz'') c of
        Some l \<Rightarrow> l
      | None \<Rightarrow> c)"

definition demo_runtime :: js_runtime where
  \<open>demo_runtime =
     \<lparr>toLowerCase = map ascii_lower,
      JSON_stringify = (\<lambda>s. ''"'' @ s @ ''"''),
      typeErrorMessage = (\<lambda>p. ''Cannot read properties of undefined (reading '' @ p @ '')'')\<rparr>\<close>

definition demo_wallet :: walletClient where
  "demo_wallet = \<lparr>account = Some \<lparr>address = ''0xa11ce''\<rparr>\<rparr>"

definition demo_response :: "gql_data \<Rightarrow> response" where
  "demo_response d =
     \<lparr>ok = True, status = 200, statusText = ''OK'',
      json = Inr \<lparr>errors = None, data = Some d\<rparr>\<rparr>"

definition demo_sdk :: "bool \<Rightarrow> gql_data \<Rightarrow> nat sdk" where
  "demo_sdk has d =
     \<lparr>getSmartAccountWalletClient = (\<lambda>key w. (Inr demo_wallet, Suc w)),
      getWalletClient = (\<lambda>key w. (Inr demo_wallet, Suc w)),
      hasSpace = (\<lambda>a w. (Inr has, Suc w)),
      createSpace = (\<lambda>w. (Inr \<lparr>to = ''0x5eed'', calldata = ''0xc0de''\<rparr>, Suc w)),
      sendTransaction = (\<lambda>wc tx w. (Inr (''0x7a'' @ calldata tx), Suc w)),
      waitForTransactionReceipt = (\<lambda>h w. (Inr (), Suc w)),
      addressToSpaceId = (\<lambda>a w. (Inr ''0xAB54A98CEB1F0AD2AB54A98CEB1F0AD200000000'', Suc w)),
      fetch = (\<lambda>q w. (Inr (demo_response d), Suc w)),
      publishEdit = (\<lambda>p w.
        (Inr \<lparr>to = ''0x5ace'', calldata = ''0xed17'', edit_cid = ''ipfs://one'',
              edit_editId = ''edit1''\<rparr>, Suc w)),
      proposeEdit = (\<lambda>p w.
        (Inr \<lparr>to = ''0xda0'', calldata = ''0xed17'', edit_cid = ''ipfs://two'',
              edit_editId = ''edit2''\<rparr>, Suc w))\<rparr>"


definition demo_config :: "string option \<Rightarrow> PublishConfig" where
  "demo_config target =
     \<lparr>ops = [\<lparr>op_type = ''createEntity'', op_id = ''e9''\<rparr>], editName = ''Add a book'',
      privateKey = ''0x5ec'', useSmartAccount = None, network = None,
      config_spaceId = target\<rparr>"

definition demo_nothing :: gql_data where
  "demo_nothing = \<lparr>space = None, spaces = None, search = None\<rparr>"

definition demo_space :: "string \<Rightarrow> member list option \<Rightarrow> member list option \<Rightarrow> gql_data" where
  "demo_space kind ms es =
     \<lparr>space = Some \<lparr>spaceType = kind, daoAddress = ''0xda0'', membersList = ms,
                     editorsList = es\<rparr>,
      spaces = Some [\<lparr>ref_id = ''cafe'', ref_type = ''PERSONAL''\<rparr>],
      search = None\<rparr>"

definition demo_offline :: "nat sdk" where
  "demo_offline = (demo_sdk True demo_nothing)\<lparr>fetch := (\<lambda>q w. (Inl ''fetch failed'', Suc w))\<rparr>"

text \<open>The invocations of \<open>publishOps\<close> in this environment that the text below uses.\<close>

definition demo_outsider :: gql_data where
  "demo_outsider = demo_space ''DAO'' (Some [\<lparr>memberSpaceId = ''beef''\<rparr>]) (Some [])"

definition demo_unlisted :: gql_data where
  "demo_unlisted = demo_space ''DAO'' None None"

definition demo_editor :: gql_data where
  "demo_editor = demo_space ''DAO'' None (Some [\<lparr>memberSpaceId = ''cafe''\<rparr>])"

definition demo_personal :: gql_data where
  "demo_personal = demo_space ''PERSONAL'' None None"

definition demo_failed :: "string \<Rightarrow> PublishResult" where
  "demo_failed m =
     \<lparr>success = False, editId = None, cid = None, transactionHash = None, spaceId = None,
      error = Some m\<rparr>"

definition trace_offline :: "event list" where
  "trace_offline =
     [EvGetSmartAccountWalletClient ''0x5ec'' (Inr demo_wallet),
      EvFetch (spaceQuery ''feed'') (Inl (JsError ''fetch failed''))]"

definition trace_rejected :: "gql_data \<Rightarrow> event list" where
  "trace_rejected d =
     [EvGetSmartAccountWalletClient ''0x5ec'' (Inr demo_wallet),
      EvFetch (spaceQuery ''feed'') (Inr (demo_response d)),
      EvFetch (callerSpacesQuery ''0xa11ce'') (Inr (demo_response d))]"

definition demo_proposal :: proposeEdit_params where
  "demo_proposal =
     \<lparr>pr_name = ''Add a book'', pr_ops = [\<lparr>op_type = ''createEntity'', op_id = ''e9''\<rparr>],
      pr_author = ''cafe'', pr_network = TESTNET, pr_callerSpaceId = ''0xcafe'',
      pr_daoSpaceId = ''0xfeed'', pr_daoSpaceAddress = ''0xda0''\<rparr>"

definition trace_proposed :: "event list" where
  "trace_proposed =
     [EvGetSmartAccountWalletClient ''0x5ec'' (Inr demo_wallet),
      EvFetch (spaceQuery ''feed'') (Inr (demo_response demo_editor)),
      EvFetch (callerSpacesQuery ''0xa11ce'') (Inr (demo_response demo_editor)),
      EvProposeEdit demo_proposal
        (Inr \<lparr>to = ''0xda0'', calldata = ''0xed17'', edit_cid = ''ipfs://two'',
              edit_editId = ''edit2''\<rparr>),
      EvSendTransaction PublishTx \<lparr>to = ''0xda0'', calldata = ''0xed17''\<rparr> (Inr ''0x7a0xed17''),
      EvWaitForTransactionReceipt ''0x7a0xed17'' (Inr ())]"

definition demo_edit :: "string \<Rightarrow> publishEdit_params" where
  "demo_edit sid =
     \<lparr>pe_name = ''Add a book'', pe_spaceId = sid,
      pe_ops = [\<lparr>op_type = ''createEntity'', op_id = ''e9''\<rparr>], pe_author = ''0xa11ce'',
      pe_network = TESTNET\<rparr>"

definition trace_published :: "string \<Rightarrow> event list" where
  "trace_published sid =
     [EvFetch (spaceQuery sid) (Inr (demo_response demo_personal)),
      EvPublishEdit (demo_edit sid)
        (Inr \<lparr>to = ''0x5ace'', calldata = ''0xed17'', edit_cid = ''ipfs://one'',
              edit_editId = ''edit1''\<rparr>),
      EvSendTransaction PublishTx \<lparr>to = ''0x5ace'', calldata = ''0xed17''\<rparr> (Inr ''0x7a0xed17''),
      EvWaitForTransactionReceipt ''0x7a0xed17'' (Inr ())]"

definition trace_created :: "event list" where
  "trace_created =
     [EvGetSmartAccountWalletClient ''0x5ec'' (Inr demo_wallet),
      EvHasSpace ''0xa11ce'' (Inr False),
      EvCreateSpace (Inr \<lparr>to = ''0x5eed'', calldata = ''0xc0de''\<rparr>),
      EvSendTransaction CreateSpaceTx \<lparr>to = ''0x5eed'', calldata = ''0xc0de''\<rparr>
        (Inr ''0x7a0xc0de''),
      EvWaitForTransactionReceipt ''0x7a0xc0de'' (Inr ()),
      EvReadContract ''0xa11ce'' (Inr ''0xAB54A98CEB1F0AD2AB54A98CEB1F0AD200000000'')]"

definition demo_published :: "string \<Rightarrow> PublishResult" where
  "demo_published sid =
     \<lparr>success = True, editId = Some ''edit1'', cid = Some ''ipfs://one'',
      transactionHash = Some ''0x7a0xed17'', spaceId = Some sid, error = None\<rparr>"

section \<open>The calculus of tasks\<close>

lemma post_resolve: "post (resolve x) w tr N E = N x w tr"
  by (simp add: post_def resolve_def)

lemma post_throw: "post (throw e) w tr N E = E e w tr"
  by (simp add: post_def throw_def)

lemma post_await:
  "post (await m k) w tr N E = post m w tr (\<lambda>x w' tr'. post (k x) w' tr' N E) E"
  by (simp add: post_def await_def split: prod.splits sum.splits)

lemma post_try_catch:
  "post (try_catch m h) w tr N E = post m w tr N (\<lambda>e w' tr'. post (h e) w' tr' N E)"
  by (simp add: post_def try_catch_def split: prod.splits sum.splits)

lemma post_external:
  "post (external f ev) w tr N E =
     ((\<forall>e w'. f w = (Inl e, w') \<longrightarrow> E e w' (tr @ [ev (Inl e)])) \<and>
      (\<forall>x w'. f w = (Inr x, w') \<longrightarrow> N x w' (tr @ [ev (Inr x)])))"
  by (auto simp add: post_def external_def split: prod.splits sum.splits)

lemma post_case_option:
  "post (case x of None \<Rightarrow> a | Some y \<Rightarrow> b y) w tr N E =
     ((x = None \<longrightarrow> post a w tr N E) \<and> (\<forall>y. x = Some y \<longrightarrow> post (b y) w tr N E))"
  by (cases x) simp_all

lemma postD:
  assumes "post m w tr N E" and "m (w, tr) = (r, w', tr')"
  shows "case r of Inl e \<Rightarrow> E e w' tr' | Inr x \<Rightarrow> N x w' tr'"
  using assms by (simp add: post_def split: sum.splits)

lemmas post_simps =
  post_resolve post_throw post_await post_try_catch post_external post_case_option

lemma await_assoc: "await (await m f) g = await m (\<lambda>x. await (f x) g)"
  by (rule ext) (simp add: await_def split: prod.splits sum.splits)

lemma await_resolve: "await (resolve x) k = k x"
  by (rule ext) (simp add: await_def resolve_def)

lemma gql_run:
  "gql rt sdk q (w, tr) =
     (case fetch sdk q w of
        (r, w') \<Rightarrow> (gql_result rt (rejected r), w', tr @ [EvFetch q (rejected r)]))"
  by (simp add: gql_def gql_result_def await_def external_def throw_def resolve_def
      rejected_def split: prod.splits sum.splits option.splits list.splits)

lemma post_gql:
  "post (gql rt sdk q) w tr N E =
    ((\<forall>r w' e. fetch sdk q w = (r, w') \<longrightarrow> gql_result rt (rejected r) = Inl e \<longrightarrow>
         E e w' (tr @ [EvFetch q (rejected r)])) \<and>
     (\<forall>r w' d. fetch sdk q w = (r, w') \<longrightarrow> gql_result rt (rejected r) = Inr d \<longrightarrow>
         N d w' (tr @ [EvFetch q (rejected r)])))"
  by (auto simp add: post_def gql_run split: prod.splits sum.splits)

lemma publishOps_phases:
  "publishOps rt sdk config =
     try_catch
       (await (publishOps_target rt sdk config)
          (\<lambda>(walletClient', address', spaceId').
             publishOps_publish rt sdk config walletClient' address' spaceId'))
       (\<lambda>error'. resolve (failure error'))"
  by (simp add: publishOps_def publishOps_target_def publishOps_publish_def failure_def
      Let_def await_assoc await_resolve)

section \<open>The duplicate-check query helpers\<close>





lemma demo_runtime_toLowerCase: "toLowerCase demo_runtime = map ascii_lower"
  by (simp add: demo_runtime_def)



section \<open>publishOps\<close>

subsection \<open>The shape of an invocation\<close>

lemma spaceQuery_inj [simp]: "(spaceQuery s = spaceQuery s') = (s = s')"
  by (simp add: spaceQuery_def)

lemma callerSpacesQuery_inj [simp]: "(callerSpacesQuery a = callerSpacesQuery a') = (a = a')"
  by (simp add: callerSpacesQuery_def)

lemma spaceQuery_neq [simp]:
  "spaceQuery s \<noteq> callerSpacesQuery a" "callerSpacesQuery a \<noteq> spaceQuery s"
  by (simp_all add: spaceQuery_def callerSpacesQuery_def)

lemma publishOps_run:
  assumes "publishOps rt sdk config (w, []) = (r, w', evs)"
  obtains (target_failed) e where
      "publishOps_target rt sdk config (w, []) = (Inl e, w', evs)"
      "r = Inr (failure e)"
    | (published) wc a sid w1 tr1 rb where
      "publishOps_target rt sdk config (w, []) = (Inr (wc, a, sid), w1, tr1)"
      "publishOps_publish rt sdk config wc a sid (w1, tr1) = (rb, w', evs)"
      "r = Inr (case rb of Inl e \<Rightarrow> failure e | Inr res \<Rightarrow> res)"
  using assms unfolding publishOps_phases
  by (auto simp add: try_catch_def await_def resolve_def split: prod.splits sum.splits)

lemma target_events:
  assumes "publishOps_target rt sdk config (w, tr) = (r, w1, tr1)"
  shows "\<exists>new. tr1 = tr @ new \<and> (\<forall>ev \<in> set new. target_event ev)"
proof -
  have "post (publishOps_target rt sdk config) w tr
          (\<lambda>x w' tr'. \<exists>new. tr' = tr @ new \<and> (\<forall>ev \<in> set new. target_event ev))
          (\<lambda>e w' tr'. \<exists>new. tr' = tr @ new \<and> (\<forall>ev \<in> set new. target_event ev))"
    by (simp add: publishOps_target_def ensurePersonalSpace_def post_simps)
  from postD [OF this assms] show ?thesis
    by (simp split: sum.splits)
qed

lemma target_event_kind:
  assumes "target_event ev"
  shows "\<not> is_fetch ev" "\<not> is_publishEdit ev" "\<not> is_proposeEdit ev" "\<not> sent PublishTx ev"
  using assms by (cases ev; simp)+

lemma publish_events:
  assumes "publishOps_publish rt sdk config wc a sid (w, tr) = (r, w', tr')"
  shows "\<exists>resp rest. tr' = tr @ EvFetch (spaceQuery sid) resp # rest \<and>
           (\<forall>q resp2. EvFetch q resp2 \<in> set rest \<longrightarrow> q = callerSpacesQuery a)"
proof -
  let ?Q = "\<lambda>tr'. \<exists>resp rest. tr' = tr @ EvFetch (spaceQuery sid) resp # rest \<and>
           (\<forall>q resp2. EvFetch q resp2 \<in> set rest \<longrightarrow> q = callerSpacesQuery a)"
  have "post (publishOps_publish rt sdk config wc a sid) w tr
          (\<lambda>x w' tr'. ?Q tr') (\<lambda>e w' tr'. ?Q tr')"
    by (simp add: publishOps_publish_def post_simps post_gql Let_def)
  from postD [OF this assms] show ?thesis
    by (simp split: sum.splits)
qed

text \<open>
  An invocation that asked the Space Directory for a space got through steps 1 and 2, and
  that request is the first event of steps 3 to 5.
\<close>

lemma space_lookup:
  assumes "publishOps rt sdk config (w, []) = (r, w', evs)"
    and "EvFetch (spaceQuery sid) resp \<in> set evs"
  obtains wc a w1 tr1 rb rest where
    "publishOps_target rt sdk config (w, []) = (Inr (wc, a, sid), w1, tr1)"
    "publishOps_publish rt sdk config wc a sid (w1, tr1) = (rb, w', evs)"
    "r = Inr (case rb of Inl e \<Rightarrow> failure e | Inr res \<Rightarrow> res)"
    "evs = tr1 @ EvFetch (spaceQuery sid) resp # rest"
    "\<forall>ev \<in> set tr1. target_event ev"
    "\<forall>q resp2. EvFetch q resp2 \<in> set rest \<longrightarrow> q = callerSpacesQuery a"
  using assms(1)
proof (cases rule: publishOps_run)
  case (target_failed e)
  from target_events [OF target_failed(1)] assms(2) show ?thesis
    by auto
next
  case (published wc a sid' w1 tr1 rb)
  from target_events [OF published(1)] have tr1: "\<forall>ev \<in> set tr1. target_event ev"
    by simp
  from publish_events [OF published(2)] obtain resp' rest where
    evs: "evs = tr1 @ EvFetch (spaceQuery sid') resp' # rest"
    and rest: "\<forall>q resp2. EvFetch q resp2 \<in> set rest \<longrightarrow> q = callerSpacesQuery a"
    by blast
  from assms(2) evs tr1 rest have "sid' = sid \<and> resp' = resp"
    by auto
  with published evs tr1 rest that show ?thesis
    by blast
qed

lemma publish_new_events:
  assumes "publishOps_publish rt sdk config wc a sid (w, tr) = (r, w', tr')"
  shows "\<exists>new. tr' = tr @ new \<and> new \<noteq> [] \<and> (\<forall>ev \<in> set new. publish_event ev) \<and>
           length (filter (sent PublishTx) new) \<le> 1 \<and>
           (\<forall>ev \<in> set new. \<forall>e. thrown_of rt ev = Some e \<longrightarrow> ev = last new \<and> r = Inl e) \<and>
           (\<forall>res. r = Inr res \<longrightarrow>
              success res \<and> editId res \<noteq> None \<and> cid res \<noteq> None \<and>
              transactionHash res \<noteq> None \<and> spaceId res = Some sid \<and> error res = None)"
proof -
  let ?Q = "\<lambda>r tr'. \<exists>new. tr' = tr @ new \<and> new \<noteq> [] \<and> (\<forall>ev \<in> set new. publish_event ev) \<and>
           length (filter (sent PublishTx) new) \<le> 1 \<and>
           (\<forall>ev \<in> set new. \<forall>e. thrown_of rt ev = Some e \<longrightarrow> ev = last new \<and> r = Inl e) \<and>
           (\<forall>res. r = Inr res \<longrightarrow>
              success res \<and> editId res \<noteq> None \<and> cid res \<noteq> None \<and>
              transactionHash res \<noteq> None \<and> spaceId res = Some sid \<and> error res = None)"
  have "post (publishOps_publish rt sdk config wc a sid) w tr
          (\<lambda>x w' tr'. ?Q (Inr x) tr') (\<lambda>e w' tr'. ?Q (Inl e) tr')"
    by (simp add: publishOps_publish_def post_simps post_gql Let_def thrown_in_def)
  from postD [OF this assms] show ?thesis
    by (auto split: sum.splits)
qed

lemma target_new_events:
  assumes "publishOps_target rt sdk config (w, tr) = (r, w1, tr1)"
  shows "\<exists>new. tr1 = tr @ new \<and> (\<forall>ev \<in> set new. target_event ev) \<and>
           length (filter (sent CreateSpaceTx) new) \<le> 1 \<and>
           ((\<exists>ev \<in> set new. sent CreateSpaceTx ev) \<longrightarrow>
              \<not> truthy (config_spaceId config) \<and> (\<exists>a. EvHasSpace a (Inr False) \<in> set new)) \<and>
           (\<forall>ev \<in> set new. \<forall>e. thrown_of rt ev = Some e \<longrightarrow> ev = last new \<and> r = Inl e)"
proof -
  let ?Q = "\<lambda>r tr1. \<exists>new. tr1 = tr @ new \<and> (\<forall>ev \<in> set new. target_event ev) \<and>
           length (filter (sent CreateSpaceTx) new) \<le> 1 \<and>
           ((\<exists>ev \<in> set new. sent CreateSpaceTx ev) \<longrightarrow>
              \<not> truthy (config_spaceId config) \<and> (\<exists>a. EvHasSpace a (Inr False) \<in> set new)) \<and>
           (\<forall>ev \<in> set new. \<forall>e. thrown_of rt ev = Some e \<longrightarrow> ev = last new \<and> r = Inl e)"
  have "post (publishOps_target rt sdk config) w tr
          (\<lambda>x w' tr'. ?Q (Inr x) tr') (\<lambda>e w' tr'. ?Q (Inl e) tr')"
    by (simp add: publishOps_target_def ensurePersonalSpace_def post_simps thrown_in_def)
  from postD [OF this assms] show ?thesis
    by (auto split: sum.splits)
qed

lemma publish_event_kind:
  assumes "publish_event ev"
  shows "\<not> sent CreateSpaceTx ev" "ev \<noteq> EvHasSpace a out"
  using assms by (cases ev; simp)+

lemma is_submission_iff: "is_submission ev \<longleftrightarrow> sent CreateSpaceTx ev \<or> sent PublishTx ev"
proof (cases ev)
  case (EvSendTransaction site tx out)
  then show ?thesis
    by (cases site) simp_all
qed simp_all

lemmas run_defs =
  publishOps_def ensurePersonalSpace_def gql_def await_def try_catch_def resolve_def throw_def
  external_def rejected_def truthy_def Let_def demo_sdk_def demo_config_def demo_wallet_def
  demo_response_def

subsection \<open>Invocations in the concrete environment\<close>

lemmas demo_defs =
  run_defs demo_space_def demo_outsider_def demo_unlisted_def demo_editor_def demo_personal_def
  demo_failed_def demo_nothing_def demo_offline_def spaceQuery_def callerSpacesQuery_def

lemma demo_run_offline:
  "publishOps demo_runtime demo_offline (demo_config (Some ''feed'')) (0, []) =
     (Inr (demo_failed ''fetch failed''), 2, trace_offline)"
  by (simp add: demo_defs trace_offline_def)

lemma demo_run_outsider:
  "publishOps demo_runtime (demo_sdk True demo_outsider) (demo_config (Some ''feed'')) (0, []) =
     (Inr (demo_failed (not_member_message ''cafe'' ''feed'')), 3, trace_rejected demo_outsider)"
  by (simp add: demo_defs trace_rejected_def not_member_message_def)


lemma demo_run_editor:
  "publishOps demo_runtime (demo_sdk True demo_editor) (demo_config (Some ''feed'')) (0, []) =
     (Inr \<lparr>success = True, editId = Some ''edit2'', cid = Some ''ipfs://two'',
           transactionHash = Some ''0x7a0xed17'', spaceId = Some ''feed'', error = None\<rparr>,
      6, trace_proposed)"
  by (simp add: demo_defs trace_proposed_def demo_proposal_def)

lemma demo_run_personal:
  "publishOps demo_runtime (demo_sdk True demo_personal) (demo_config (Some ''feed'')) (0, []) =
     (Inr (demo_published ''feed''), 5,
      EvGetSmartAccountWalletClient ''0x5ec'' (Inr demo_wallet) # trace_published ''feed'')"
  by (simp add: demo_defs trace_published_def demo_edit_def demo_published_def)

lemma demo_run_created:
  "publishOps demo_runtime (demo_sdk False demo_personal) (demo_config None) (0, []) =
     (Inr (demo_published ''ab54a98ceb1f0ad2ab54a98ceb1f0ad2''), 10,
      trace_created @ trace_published ''ab54a98ceb1f0ad2ab54a98ceb1f0ad2'')"
  by (simp add: demo_defs trace_published_def trace_created_def demo_edit_def demo_published_def
      demo_runtime_toLowerCase slice_def ascii_lower_def)

lemma demo_run_stranded:
  "publishOps demo_runtime (demo_sdk False demo_nothing) (demo_config None) (0, []) =
     (Inr (demo_failed ''Space ab54a98ceb1f0ad2ab54a98ceb1f0ad2 not found''), 7,
      trace_created @
      [EvFetch (spaceQuery ''ab54a98ceb1f0ad2ab54a98ceb1f0ad2'') (Inr (demo_response demo_nothing))])"
  by (simp add: demo_defs trace_created_def demo_runtime_toLowerCase slice_def ascii_lower_def)

lemma demo_gql_result: "gql_result rt (Inr (demo_response d)) = Inr (Some d)"
  by (simp add: gql_result_def demo_response_def)

lemma demo_space_fields:
  "space (demo_space kind ms es) =
     Some \<lparr>spaceType = kind, daoAddress = ''0xda0'', membersList = ms, editorsList = es\<rparr>"
  "callerSpaceOf (demo_space kind ms es) = Some \<lparr>ref_id = ''cafe'', ref_type = ''PERSONAL''\<rparr>"
  by (simp_all add: demo_space_def callerSpaceOf_def)

lemma demo_wallet_answer:
  "wallet_answer (demo_sdk has d) (demo_config target) w = (Inr demo_wallet, Suc w)"
  "wallet_event (demo_config target) out = EvGetSmartAccountWalletClient ''0x5ec'' out"
  "account demo_wallet = Some \<lparr>address = ''0xa11ce''\<rparr>"
  by (simp_all add: wallet_answer_def wallet_event_def smart_def demo_sdk_def demo_config_def
      demo_wallet_def)

lemma demo_given:
  "target_resolved rt sdk (demo_config (Some ''feed'')) wc a w ''feed'' w []"
  by (simp add: target_resolved_def truthy_def demo_config_def)

lemma demo_fetch: "fetch (demo_sdk has d) q w = (Inr (demo_response d), Suc w)"
  by (simp add: demo_sdk_def)

lemma demo_rejected: "gql_result rt (rejected (Inr (demo_response d))) = Inr (Some d)"
  by (simp add: rejected_def demo_gql_result)

lemma demo_run_found:
  "publishOps demo_runtime (demo_sdk True demo_personal) (demo_config (Some '''')) (0, []) =
     (Inr (demo_published ''ab54a98ceb1f0ad2ab54a98ceb1f0ad2''), 7,
      [EvGetSmartAccountWalletClient ''0x5ec'' (Inr demo_wallet),
       EvHasSpace ''0xa11ce'' (Inr True),
       EvReadContract ''0xa11ce'' (Inr ''0xAB54A98CEB1F0AD2AB54A98CEB1F0AD200000000'')] @
      trace_published ''ab54a98ceb1f0ad2ab54a98ceb1f0ad2'')"
  by (simp add: demo_defs trace_published_def demo_edit_def demo_published_def
      demo_runtime_toLowerCase slice_def ascii_lower_def)

subsection \<open>The two branches of step 4\<close>

lemma candidate_iff:
  "list_ex (\<lambda>m. memberSpaceId m = c)
     ((case membersList sp of None \<Rightarrow> [] | Some ms \<Rightarrow> ms) @
      (case editorsList sp of None \<Rightarrow> [] | Some es \<Rightarrow> es)) = (c \<in> candidateIds sp)"
  by (auto simp add: candidateIds_def or_empty_def list_ex_iff split: option.splits)

lemma publish_dao:
  assumes "publishOps_publish rt sdk config wc a sid (w, tr) =
      (r, w', tr @ EvFetch (spaceQuery sid) resp # rest)"
    and "gql_result rt resp = Inr (Some d)" and "space d = Some sp"
    and "spaceType sp \<noteq> ''PERSONAL''"
  shows "\<exists>resp2 rest2. rest = EvFetch (callerSpacesQuery a) resp2 # rest2 \<and>
     (\<forall>ev \<in> set rest2. \<not> is_publishEdit ev \<and> \<not> is_fetch ev) \<and>
     length (filter is_proposeEdit rest2) \<le> 1 \<and>
     (\<forall>p out. EvProposeEdit p out \<in> set rest2 \<longrightarrow> pr_author p \<in> candidateIds sp) \<and>
     (\<forall>d2 cs. gql_result rt resp2 = Inr (Some d2) \<longrightarrow> callerSpaceOf d2 = Some cs \<longrightarrow>
          (if ref_id cs \<in> candidateIds sp
           then \<exists>p out rest3. rest2 = EvProposeEdit p out # rest3 \<and> pr_author p = ref_id cs
           else rest2 = [] \<and> r = Inl (JsError (not_member_message (ref_id cs) sid))))"
proof -
  let ?Q = "\<lambda>r tr'. \<forall>resp rest d sp. tr' = tr @ EvFetch (spaceQuery sid) resp # rest \<longrightarrow>
      gql_result rt resp = Inr (Some d) \<longrightarrow> space d = Some sp \<longrightarrow> spaceType sp \<noteq> ''PERSONAL'' \<longrightarrow>
    (\<exists>resp2 rest2. rest = EvFetch (callerSpacesQuery a) resp2 # rest2 \<and>
     (\<forall>ev \<in> set rest2. \<not> is_publishEdit ev \<and> \<not> is_fetch ev) \<and>
     length (filter is_proposeEdit rest2) \<le> 1 \<and>
     (\<forall>p out. EvProposeEdit p out \<in> set rest2 \<longrightarrow> pr_author p \<in> candidateIds sp) \<and>
     (\<forall>d2 cs. gql_result rt resp2 = Inr (Some d2) \<longrightarrow> callerSpaceOf d2 = Some cs \<longrightarrow>
          (if ref_id cs \<in> candidateIds sp
           then \<exists>p out rest3. rest2 = EvProposeEdit p out # rest3 \<and> pr_author p = ref_id cs
           else rest2 = [] \<and> r = Inl (JsError (not_member_message (ref_id cs) sid)))))"
  have "post (publishOps_publish rt sdk config wc a sid) w tr
          (\<lambda>x w' tr'. ?Q (Inr x) tr') (\<lambda>e w' tr'. ?Q (Inl e) tr')"
    by (simp add: publishOps_publish_def post_simps post_gql Let_def candidate_iff
        not_member_message_def callerSpaceOf_def del: list_ex_append)
  from postD [OF this assms(1)] assms(2-) show ?thesis
    by (auto split: sum.splits)
qed


lemma not_member_sublist: "sublist ''not a member or editor'' (not_member_message c sid)"
proof -
  have "not_member_message c sid =
      (''Your personal space ('' @ c @ '') is '') @ ''not a member or editor'' @
      ('' of DAO space '' @ sid)"
    by (simp add: not_member_message_def)
  then show ?thesis
    unfolding sublist_def by blast
qed

lemma caller_lookup:
  assumes "evs = tr1 @ EvFetch (spaceQuery sid) resp # EvFetch (callerSpacesQuery a) resp2 # rest2"
    and "\<forall>ev \<in> set tr1. target_event ev"
    and "\<forall>ev \<in> set rest2. \<not> is_publishEdit ev \<and> \<not> is_fetch ev"
    and "EvFetch (callerSpacesQuery a') resp2' \<in> set evs"
  shows "a' = a \<and> resp2' = resp2"
  using assms by (auto dest: target_event_kind)

subsection \<open>From the answers of the outside parties to the invocation\<close>

lemma answered_iff:
  "(case p of (r, w) \<Rightarrow> (case r of Inl e \<Rightarrow> False | Inr x \<Rightarrow> Q x w)) =
     (\<exists>x w. p = (Inr x, w) \<and> Q x w)"
  by (auto split: prod.splits sum.splits)

lemma space_found_iff:
  "space_found rt sdk a w1 sid w2 evs =
     (\<exists>wa hex.
        hasSpace sdk a w1 = (Inr True, wa) \<and>
        addressToSpaceId sdk a wa = (Inr hex, w2) \<and>
        sid = toLowerCase rt (slice 2 34 hex) \<and>
        evs = [EvHasSpace a (Inr True), EvReadContract a (Inr hex)])"
  unfolding space_found_def answered_iff by auto

lemma space_created_iff:
  "space_created rt sdk wc a w1 sid w2 evs =
     (\<exists>wa tx wb h wd we hex.
        hasSpace sdk a w1 = (Inr False, wa) \<and>
        createSpace sdk wa = (Inr tx, wb) \<and>
        sendTransaction sdk wc tx wb = (Inr h, wd) \<and>
        waitForTransactionReceipt sdk h wd = (Inr (), we) \<and>
        addressToSpaceId sdk a we = (Inr hex, w2) \<and>
        sid = toLowerCase rt (slice 2 34 hex) \<and>
        evs = [EvHasSpace a (Inr False), EvCreateSpace (Inr tx),
               EvSendTransaction CreateSpaceTx tx (Inr h),
               EvWaitForTransactionReceipt h (Inr ()), EvReadContract a (Inr hex)])"
  unfolding space_created_def answered_iff by auto

lemma publishOps_failed:
  assumes "publishOps_target rt sdk config (w, []) = (Inl e, w1, tr1)"
  shows "publishOps rt sdk config (w, []) = (Inr (failure e), w1, tr1)"
  using assms unfolding publishOps_phases
  by (simp add: try_catch_def await_def resolve_def)

lemma publishOps_continued:
  assumes "publishOps_target rt sdk config (w, []) = (Inr (wc, a, sid), w1, tr1)"
    and "publishOps_publish rt sdk config wc a sid (w1, tr1) = (rb, w', evs)"
  shows "publishOps rt sdk config (w, []) =
           (Inr (case rb of Inl e \<Rightarrow> failure e | Inr res \<Rightarrow> res), w', evs)"
  using assms unfolding publishOps_phases
  by (simp add: try_catch_def await_def resolve_def split: sum.splits)

lemma target_run:
  assumes "wallet_answer sdk config w = (Inr wc, w1)"
    and "account wc = Some acc"
    and "target_resolved rt sdk config wc (address acc) w1 sid w2 evs2"
  shows "publishOps_target rt sdk config (w, tr) =
           (Inr (wc, address acc, sid), w2, tr @ wallet_event config (Inr wc) # evs2)"
  using assms
  by (auto simp add: publishOps_target_def ensurePersonalSpace_def await_def external_def
      resolve_def throw_def wallet_answer_def wallet_event_def smart_def target_resolved_def
      space_found_iff space_created_iff truthy_def
      split: if_splits option.splits)

lemma publish_lookup:
  assumes "publishOps_publish rt sdk config wc a sid (w, tr) = (r, w', tr')"
    and "fetch sdk (spaceQuery sid) w = (resp, w3)"
  shows "\<exists>rest. tr' = tr @ EvFetch (spaceQuery sid) (rejected resp) # rest \<and>
           (\<forall>res. r = Inr res \<longrightarrow> success res \<and> spaceId res = Some sid)"
proof -
  let ?Q = "\<lambda>r tr'. \<forall>resp w3. fetch sdk (spaceQuery sid) w = (resp, w3) \<longrightarrow>
     (\<exists>rest. tr' = tr @ EvFetch (spaceQuery sid) (rejected resp) # rest \<and>
           (\<forall>res. r = Inr res \<longrightarrow> success res \<and> spaceId res = Some sid))"
  have "post (publishOps_publish rt sdk config wc a sid) w tr
          (\<lambda>x w' tr'. ?Q (Inr x) tr') (\<lambda>e w' tr'. ?Q (Inl e) tr')"
    by (simp add: publishOps_publish_def post_simps post_gql Let_def)
  from postD [OF this assms(1)] assms(2) show ?thesis
    by (auto split: sum.splits)
qed

lemma publish_personal_call:
  assumes "publishOps_publish rt sdk config wc a sid (w, tr) = (r, w', tr')"
    and "fetch sdk (spaceQuery sid) w = (resp, w3)"
    and "gql_result rt (rejected resp) = Inr (Some d)" and "space d = Some sp"
    and "spaceType sp = ''PERSONAL''"
  shows "\<exists>out w4 rest. publishEdit sdk (edit_params config sid a) w3 = (out, w4) \<and>
           tr' = tr @ [EvFetch (spaceQuery sid) (rejected resp),
                       EvPublishEdit (edit_params config sid a) out] @ rest \<and>
           (\<forall>ev \<in> set rest. \<not> is_publishEdit ev \<and> \<not> is_proposeEdit ev \<and> \<not> is_fetch ev)"
proof -
  let ?Q = "\<lambda>tr'. \<forall>resp w3 d sp. fetch sdk (spaceQuery sid) w = (resp, w3) \<longrightarrow>
      gql_result rt (rejected resp) = Inr (Some d) \<longrightarrow> space d = Some sp \<longrightarrow>
      spaceType sp = ''PERSONAL'' \<longrightarrow>
      (\<exists>out w4 rest. publishEdit sdk (edit_params config sid a) w3 = (out, w4) \<and>
           tr' = tr @ [EvFetch (spaceQuery sid) (rejected resp),
                       EvPublishEdit (edit_params config sid a) out] @ rest \<and>
           (\<forall>ev \<in> set rest. \<not> is_publishEdit ev \<and> \<not> is_proposeEdit ev \<and> \<not> is_fetch ev))"
  have "post (publishOps_publish rt sdk config wc a sid) w tr
          (\<lambda>x w' tr'. ?Q tr') (\<lambda>e w' tr'. ?Q tr')"
    by (simp add: publishOps_publish_def post_simps post_gql Let_def edit_params_def
        default_network_def)
  from postD [OF this assms(1)] assms(2-) show ?thesis
    by (auto split: sum.splits)
qed

lemma publish_dao_call:
  assumes "publishOps_publish rt sdk config wc a sid (w, tr) = (r, w', tr')"
    and "fetch sdk (spaceQuery sid) w = (resp, w3)"
    and "gql_result rt (rejected resp) = Inr (Some d)" and "space d = Some sp"
    and "spaceType sp \<noteq> ''PERSONAL''"
  shows "\<exists>resp2 w4 rest. fetch sdk (callerSpacesQuery a) w3 = (resp2, w4) \<and>
           tr' = tr @ [EvFetch (spaceQuery sid) (rejected resp),
                       EvFetch (callerSpacesQuery a) (rejected resp2)] @ rest \<and>
           (\<forall>ev \<in> set rest. \<not> is_publishEdit ev \<and> \<not> is_fetch ev) \<and>
           (\<forall>d2 cs. gql_result rt (rejected resp2) = Inr (Some d2) \<longrightarrow>
              callerSpaceOf d2 = Some cs \<longrightarrow> ref_id cs \<in> candidateIds sp \<longrightarrow>
              (\<exists>out w5 rest'.
                 proposeEdit sdk (proposal_params config sid sp cs) w4 = (out, w5) \<and>
                 rest = EvProposeEdit (proposal_params config sid sp cs) out # rest' \<and>
                 (\<forall>ev \<in> set rest'. \<not> is_proposeEdit ev))) \<and>
           (\<not> (\<exists>d2 cs. gql_result rt (rejected resp2) = Inr (Some d2) \<and>
                 callerSpaceOf d2 = Some cs \<and> ref_id cs \<in> candidateIds sp) \<longrightarrow> rest = [])"
proof -
  let ?Q = "\<lambda>tr'. \<forall>resp w3 d sp. fetch sdk (spaceQuery sid) w = (resp, w3) \<longrightarrow>
      gql_result rt (rejected resp) = Inr (Some d) \<longrightarrow> space d = Some sp \<longrightarrow>
      spaceType sp \<noteq> ''PERSONAL'' \<longrightarrow>
      (\<exists>resp2 w4 rest. fetch sdk (callerSpacesQuery a) w3 = (resp2, w4) \<and>
           tr' = tr @ [EvFetch (spaceQuery sid) (rejected resp),
                       EvFetch (callerSpacesQuery a) (rejected resp2)] @ rest \<and>
           (\<forall>ev \<in> set rest. \<not> is_publishEdit ev \<and> \<not> is_fetch ev) \<and>
           (\<forall>d2 cs. gql_result rt (rejected resp2) = Inr (Some d2) \<longrightarrow>
              callerSpaceOf d2 = Some cs \<longrightarrow> ref_id cs \<in> candidateIds sp \<longrightarrow>
              (\<exists>out w5 rest'.
                 proposeEdit sdk (proposal_params config sid sp cs) w4 = (out, w5) \<and>
                 rest = EvProposeEdit (proposal_params config sid sp cs) out # rest' \<and>
                 (\<forall>ev \<in> set rest'. \<not> is_proposeEdit ev))) \<and>
           (\<not> (\<exists>d2 cs. gql_result rt (rejected resp2) = Inr (Some d2) \<and>
                 callerSpaceOf d2 = Some cs \<and> ref_id cs \<in> candidateIds sp) \<longrightarrow> rest = []))"
  have "post (publishOps_publish rt sdk config wc a sid) w tr
          (\<lambda>x w' tr'. ?Q tr') (\<lambda>e w' tr'. ?Q tr')"
    by (simp add: publishOps_publish_def post_simps post_gql Let_def proposal_params_def
        default_network_def candidate_iff callerSpaceOf_def del: list_ex_append)
  from postD [OF this assms(1)] assms(2-) show ?thesis
    by (auto split: sum.splits)
qed

lemma target_resolved_events:
  assumes "target_resolved rt sdk config wc a w1 sid w2 evs2"
  shows "\<forall>ev \<in> set evs2. target_event ev"
  using assms
  by (auto simp add: target_resolved_def space_found_iff space_created_iff split: if_splits)

lemma wallet_event_kind [simp]: "target_event (wallet_event config out)"
  by (simp add: wallet_event_def)

lemma no_events:
  assumes "\<forall>ev \<in> set evs. target_event ev"
  shows "\<forall>ev \<in> set evs. \<not> is_publishEdit ev" "\<forall>ev \<in> set evs. \<not> is_proposeEdit ev"
    "\<forall>ev \<in> set evs. \<not> is_fetch ev"
  using assms by (auto dest: target_event_kind)

lemmas target_defs =
  publishOps_target_def ensurePersonalSpace_def await_def external_def resolve_def throw_def
  wallet_answer_def wallet_event_def smart_def truthy_def

lemma publishOps_returns:
  obtains r w' evs where "publishOps rt sdk config (w, []) = (Inr r, w', evs)"
proof -
  obtain r0 w' evs where run: "publishOps rt sdk config (w, []) = (r0, w', evs)"
    by (metis prod_cases3)
  then show ?thesis
  proof (cases rule: publishOps_run)
    case (target_failed e)
    with run that show ?thesis
      by blast
  next
    case (published wc a sid w1 tr1 rb)
    with run that show ?thesis
      by blast
  qed
qed

lemma target_begins:
  assumes "publishOps_target rt sdk config (w, tr) = (r, w', tr')"
    and "\<not> truthy (config_spaceId config)"
    and "wallet_answer sdk config w = (Inr wc, w1)"
    and "account wc = Some acc"
    and "hasSpace sdk (address acc) w1 = (out, w2)"
  shows "\<exists>rest. tr' = tr @ wallet_event config (Inr wc) # EvHasSpace (address acc) out # rest"
proof -
  let ?Q = "\<lambda>tr'. \<not> truthy (config_spaceId config) \<longrightarrow>
     (\<forall>wc w1 acc out w2. wallet_answer sdk config w = (Inr wc, w1) \<longrightarrow>
        account wc = Some acc \<longrightarrow> hasSpace sdk (address acc) w1 = (out, w2) \<longrightarrow>
        (\<exists>rest. tr' = tr @ wallet_event config (Inr wc) # EvHasSpace (address acc) out # rest))"
  have "post (publishOps_target rt sdk config) w tr
          (\<lambda>x w' tr'. ?Q tr') (\<lambda>e w' tr'. ?Q tr')"
    by (simp add: publishOps_target_def ensurePersonalSpace_def post_simps wallet_answer_def
        wallet_event_def smart_def)
  from postD [OF this assms(1)] assms(2-) show ?thesis
    by (auto split: sum.splits)
qed

lemma publishOps_begins:
  assumes "publishOps rt sdk config (w, []) = (r, w', evs)"
    and "\<not> truthy (config_spaceId config)"
    and "wallet_answer sdk config w = (Inr wc, w1)"
    and "account wc = Some acc"
    and "hasSpace sdk (address acc) w1 = (out, w2)"
  shows "\<exists>rest. evs = wallet_event config (Inr wc) # EvHasSpace (address acc) out # rest"
  using assms(1)
proof (cases rule: publishOps_run)
  case (target_failed e)
  from target_begins [OF target_failed(1) assms(2-)] show ?thesis
    by simp
next
  case (published wc' a sid w1' tr1 rb)
  from target_begins [OF published(1) assms(2-)] obtain rest where
    "tr1 = wallet_event config (Inr wc) # EvHasSpace (address acc) out # rest"
    by auto
  moreover from publish_new_events [OF published(2)] obtain new where "evs = tr1 @ new"
    by blast
  ultimately show ?thesis
    by simp
qed

lemma target_creation_fails:
  assumes "\<not> truthy (config_spaceId config)"
    and "wallet_answer sdk config w = (Inr wc, w1)"
    and "account wc = Some acc"
    and "hasSpace sdk (address acc) w1 = (Inr False, w2)"
  shows "createSpace sdk w2 = (Inl e, w3) \<Longrightarrow>
           publishOps_target rt sdk config (w, []) =
             (Inl e, w3,
              [wallet_event config (Inr wc), EvHasSpace (address acc) (Inr False),
               EvCreateSpace (Inl e)])"
    and "createSpace sdk w2 = (Inr tx, w3) \<Longrightarrow> sendTransaction sdk wc tx w3 = (Inl e, w4) \<Longrightarrow>
           publishOps_target rt sdk config (w, []) =
             (Inl e, w4,
              [wallet_event config (Inr wc), EvHasSpace (address acc) (Inr False),
               EvCreateSpace (Inr tx), EvSendTransaction CreateSpaceTx tx (Inl e)])"
    and "createSpace sdk w2 = (Inr tx, w3) \<Longrightarrow> sendTransaction sdk wc tx w3 = (Inr h, w4) \<Longrightarrow>
         waitForTransactionReceipt sdk h w4 = (Inl e, w5) \<Longrightarrow>
           publishOps_target rt sdk config (w, []) =
             (Inl e, w5,
              [wallet_event config (Inr wc), EvHasSpace (address acc) (Inr False),
               EvCreateSpace (Inr tx), EvSendTransaction CreateSpaceTx tx (Inr h),
               EvWaitForTransactionReceipt h (Inl e)])"
    and "createSpace sdk w2 = (Inr tx, w3) \<Longrightarrow> sendTransaction sdk wc tx w3 = (Inr h, w4) \<Longrightarrow>
         waitForTransactionReceipt sdk h w4 = (Inr (), w5) \<Longrightarrow>
         addressToSpaceId sdk (address acc) w5 = (Inl e, w6) \<Longrightarrow>
           publishOps_target rt sdk config (w, []) =
             (Inl e, w6,
              [wallet_event config (Inr wc), EvHasSpace (address acc) (Inr False),
               EvCreateSpace (Inr tx), EvSendTransaction CreateSpaceTx tx (Inr h),
               EvWaitForTransactionReceipt h (Inr ()), EvReadContract (address acc) (Inl e)])"
  using assms by (simp_all add: target_defs split: if_splits)

lemmas creation_fails = target_creation_fails [THEN publishOps_failed]

lemma resolved_run:
  assumes "wallet_answer sdk config w = (Inr wc, w1)"
    and "account wc = Some acc"
    and "target_resolved rt sdk config wc (address acc) w1 sid w2 evs2"
    and "fetch sdk (spaceQuery sid) w2 = (resp, w3)"
  shows "\<exists>r w' rest.
     publishOps rt sdk config (w, []) =
       (Inr r, w',
        wallet_event config (Inr wc) # evs2 @ EvFetch (spaceQuery sid) (rejected resp) # rest) \<and>
     (success r \<longrightarrow> spaceId r = Some sid) \<and>
     (\<forall>d sp. gql_result rt (rejected resp) = Inr (Some d) \<longrightarrow> space d = Some sp \<longrightarrow>
        spaceType sp = ''PERSONAL'' \<longrightarrow>
        (\<exists>out w4 rest'.
           publishEdit sdk (edit_params config sid (address acc)) w3 = (out, w4) \<and>
           rest = EvPublishEdit (edit_params config sid (address acc)) out # rest'))"
proof -
  let ?a = "address acc"
  let ?pre = "wallet_event config (Inr wc) # evs2"
  from target_run [OF assms(1-3), of "[]"]
  have target: "publishOps_target rt sdk config (w, []) = (Inr (wc, ?a, sid), w2, ?pre)"
    by simp
  obtain rb w' evs where
    publish: "publishOps_publish rt sdk config wc ?a sid (w2, ?pre) = (rb, w', evs)"
    by (metis prod_cases3)
  let ?r = "case rb of Inl e \<Rightarrow> failure e | Inr res \<Rightarrow> res"
  from publishOps_continued [OF target publish]
  have run: "publishOps rt sdk config (w, []) = (Inr ?r, w', evs)" .
  from publish_lookup [OF publish assms(4)] obtain rest where
    evs: "evs = ?pre @ EvFetch (spaceQuery sid) (rejected resp) # rest"
    and res: "\<forall>res. rb = Inr res \<longrightarrow> success res \<and> spaceId res = Some sid"
    by blast
  from res have id: "success ?r \<longrightarrow> spaceId ?r = Some sid"
    by (cases rb) (simp_all add: failure_def)
  have personal: "\<exists>out w4 rest'.
           publishEdit sdk (edit_params config sid ?a) w3 = (out, w4) \<and>
           rest = EvPublishEdit (edit_params config sid ?a) out # rest'"
    if "gql_result rt (rejected resp) = Inr (Some d)" "space d = Some sp"
      "spaceType sp = ''PERSONAL''" for d sp
    using publish_personal_call [OF publish assms(4) that] evs by auto
  from run evs id personal show ?thesis
    by (intro exI [of _ ?r] exI [of _ w'] exI [of _ rest]) auto
qed

subsection \<open>The errors thrown in line\<close>

lemma target_account:
  assumes "publishOps_target rt sdk config (w, []) = (r, w', tr')"
    and "wallet_event config (Inr wc) \<in> set tr'"
    and "account wc = None"
  shows "tr' = [wallet_event config (Inr wc)] \<and> r = Inl (TypeError rt ''address'')"
proof -
  let ?Q = "\<lambda>r tr'. \<forall>wc. wallet_event config (Inr wc) \<in> set tr' \<longrightarrow> account wc = None \<longrightarrow>
     tr' = [wallet_event config (Inr wc)] \<and> r = Inl (TypeError rt ''address'')"
  have "post (publishOps_target rt sdk config) w []
          (\<lambda>x w' tr'. ?Q (Inr x) tr') (\<lambda>e w' tr'. ?Q (Inl e) tr')"
    by (simp add: publishOps_target_def ensurePersonalSpace_def post_simps wallet_event_def
        smart_def)
  from postD [OF this assms(1)] assms(2-) show ?thesis
    by (auto split: sum.splits)
qed

lemma target_outcome:
  assumes "publishOps_target rt sdk config (w, []) = (Inl e, w', tr')"
  shows "thrown_of rt (last tr') = Some e \<or>
         (\<exists>wc. tr' = [wallet_event config (Inr wc)] \<and> account wc = None \<and>
            e = TypeError rt ''address'')"
proof -
  let ?Q = "\<lambda>e tr'. thrown_of rt (last tr') = Some e \<or>
         (\<exists>wc. tr' = [wallet_event config (Inr wc)] \<and> account wc = None \<and>
            e = TypeError rt ''address'')"
  have "post (publishOps_target rt sdk config) w []
          (\<lambda>x w' tr'. True) (\<lambda>e w' tr'. ?Q e tr')"
    by (simp add: publishOps_target_def ensurePersonalSpace_def post_simps wallet_event_def
        smart_def thrown_in_def)
  from postD [OF this assms(1)] show ?thesis
    by simp
qed

lemma publish_null_data:
  assumes "publishOps_publish rt sdk config wc a sid (w, tr) =
      (r, w', tr @ EvFetch (spaceQuery sid) resp # rest)"
    and "gql_result rt resp = Inr None"
  shows "rest = [] \<and> r = Inl (TypeError rt ''space'')"
proof -
  let ?Q = "\<lambda>r tr'. \<forall>resp rest. tr' = tr @ EvFetch (spaceQuery sid) resp # rest \<longrightarrow>
      gql_result rt resp = Inr None \<longrightarrow> rest = [] \<and> r = Inl (TypeError rt ''space'')"
  have "post (publishOps_publish rt sdk config wc a sid) w tr
          (\<lambda>x w' tr'. ?Q (Inr x) tr') (\<lambda>e w' tr'. ?Q (Inl e) tr')"
    by (simp add: publishOps_publish_def post_simps post_gql Let_def)
  from postD [OF this assms(1)] assms(2-) show ?thesis
    by (auto split: sum.splits)
qed

lemma publish_caller_lookup:
  assumes "publishOps_publish rt sdk config wc a sid (w, tr) =
      (r, w', tr @ EvFetch (spaceQuery sid) resp # rest)"
    and "EvFetch (callerSpacesQuery a') resp2 \<in> set rest"
  shows "a' = a \<and>
     (gql_result rt resp2 = Inr None \<longrightarrow>
        rest = [EvFetch (callerSpacesQuery a) resp2] \<and> r = Inl (TypeError rt ''spaces'')) \<and>
     (\<forall>d2. gql_result rt resp2 = Inr (Some d2) \<longrightarrow> callerSpaceOf d2 = None \<longrightarrow>
        rest = [EvFetch (callerSpacesQuery a) resp2] \<and>
        r = Inl (JsError (''No personal space found for wallet '' @ a))) \<and>
     (\<forall>d2 cs d sp. gql_result rt resp2 = Inr (Some d2) \<longrightarrow> callerSpaceOf d2 = Some cs \<longrightarrow>
        gql_result rt resp = Inr (Some d) \<longrightarrow> space d = Some sp \<longrightarrow>
        ref_id cs \<notin> candidateIds sp \<longrightarrow>
        rest = [EvFetch (callerSpacesQuery a) resp2] \<and>
        r = Inl (JsError (not_member_message (ref_id cs) sid)))"
proof -
  let ?Q = "\<lambda>r tr'. \<forall>resp rest a' resp2. tr' = tr @ EvFetch (spaceQuery sid) resp # rest \<longrightarrow>
     EvFetch (callerSpacesQuery a') resp2 \<in> set rest \<longrightarrow>
     a' = a \<and>
     (gql_result rt resp2 = Inr None \<longrightarrow>
        rest = [EvFetch (callerSpacesQuery a) resp2] \<and> r = Inl (TypeError rt ''spaces'')) \<and>
     (\<forall>d2. gql_result rt resp2 = Inr (Some d2) \<longrightarrow> callerSpaceOf d2 = None \<longrightarrow>
        rest = [EvFetch (callerSpacesQuery a) resp2] \<and>
        r = Inl (JsError (''No personal space found for wallet '' @ a))) \<and>
     (\<forall>d2 cs d sp. gql_result rt resp2 = Inr (Some d2) \<longrightarrow> callerSpaceOf d2 = Some cs \<longrightarrow>
        gql_result rt resp = Inr (Some d) \<longrightarrow> space d = Some sp \<longrightarrow>
        ref_id cs \<notin> candidateIds sp \<longrightarrow>
        rest = [EvFetch (callerSpacesQuery a) resp2] \<and>
        r = Inl (JsError (not_member_message (ref_id cs) sid)))"
  have "post (publishOps_publish rt sdk config wc a sid) w tr
          (\<lambda>x w' tr'. ?Q (Inr x) tr') (\<lambda>e w' tr'. ?Q (Inl e) tr')"
    by (simp add: publishOps_publish_def post_simps post_gql Let_def candidate_iff
        not_member_message_def callerSpaceOf_def del: list_ex_append)
  from postD [OF this assms(1)]
  have "?Q r (tr @ EvFetch (spaceQuery sid) resp # rest)"
    by (cases r) (simp_all only: sum.case)
  with assms(2) show ?thesis
    by blast
qed

lemma publish_outcome:
  assumes "publishOps_publish rt sdk config wc a sid (w, tr) = (r, w', tr')"
  shows "case r of
           Inr res \<Rightarrow> \<exists>tx h. drop (length tr' - 2) tr' =
               [EvSendTransaction PublishTx tx (Inr h), EvWaitForTransactionReceipt h (Inr ())]
         | Inl e \<Rightarrow>
             thrown_of rt (last tr') = Some e \<or>
             (\<exists>resp. last tr' = EvFetch (spaceQuery sid) resp \<and>
                (gql_result rt resp = Inr None \<and> e = TypeError rt ''space'' \<or>
                 (\<exists>d. gql_result rt resp = Inr (Some d) \<and> space d = None \<and>
                    e = JsError (''Space '' @ sid @ '' not found'')))) \<or>
             (\<exists>resp2. last tr' = EvFetch (callerSpacesQuery a) resp2 \<and>
                (gql_result rt resp2 = Inr None \<and> e = TypeError rt ''spaces'' \<or>
                 (\<exists>d2. gql_result rt resp2 = Inr (Some d2) \<and>
                    (callerSpaceOf d2 = None \<and>
                       e = JsError (''No personal space found for wallet '' @ a) \<or>
                     (\<exists>cs. callerSpaceOf d2 = Some cs \<and>
                        e = JsError (not_member_message (ref_id cs) sid))))))"
proof -
  have "post (publishOps_publish rt sdk config wc a sid) w tr
          (\<lambda>x w' tr'. \<exists>tx h. drop (length tr' - 2) tr' =
               [EvSendTransaction PublishTx tx (Inr h), EvWaitForTransactionReceipt h (Inr ())])
          (\<lambda>e w' tr'. thrown_of rt (last tr') = Some e \<or>
             (\<exists>resp. last tr' = EvFetch (spaceQuery sid) resp \<and>
                (gql_result rt resp = Inr None \<and> e = TypeError rt ''space'' \<or>
                 (\<exists>d. gql_result rt resp = Inr (Some d) \<and> space d = None \<and>
                    e = JsError (''Space '' @ sid @ '' not found'')))) \<or>
             (\<exists>resp2. last tr' = EvFetch (callerSpacesQuery a) resp2 \<and>
                (gql_result rt resp2 = Inr None \<and> e = TypeError rt ''spaces'' \<or>
                 (\<exists>d2. gql_result rt resp2 = Inr (Some d2) \<and>
                    (callerSpaceOf d2 = None \<and>
                       e = JsError (''No personal space found for wallet '' @ a) \<or>
                     (\<exists>cs. callerSpaceOf d2 = Some cs \<and>
                        e = JsError (not_member_message (ref_id cs) sid)))))))"
    by (simp add: publishOps_publish_def post_simps post_gql Let_def thrown_in_def
        not_member_message_def callerSpaceOf_def del: list_ex_append)
  from postD [OF this assms(1)] show ?thesis .
qed

subsection \<open>Routing on the governance kind\<close>

text \<open>
  C3. Let the wallet client be obtained with an account, let the target space id be
  resolved (given in the configuration, or found or created by
  \<open>ensurePersonalSpace\<close>), and let the Space Directory answer the request for that
  space with a space.

  If its governance kind is the string \<open>PERSONAL\<close>, the next outside call of the
  invocation is \<open>personalSpace.publishEdit\<close> with the edit name, the operations, the
  wallet's address as author and the target space id. It is the only call of
  \<open>personalSpace.publishEdit\<close>; \<open>daoSpace.proposeEdit\<close> is not called, and no
  second request is sent to the API.

  If the kind is any other string, the next outside call is the reverse lookup of the
  caller's spaces by the wallet's address, and \<open>personalSpace.publishEdit\<close> is never
  called. When the answer holds a \<open>PERSONAL\<close> space of the caller whose id is in
  \<open>membersList\<close> or \<open>editorsList\<close> of the target, the next outside call is
  \<open>daoSpace.proposeEdit\<close> with that id as author and caller space, and it is the only
  one. Otherwise the reverse lookup is the last outside call, and
  \<open>daoSpace.proposeEdit\<close> is not called.
\<close>

theorem publishOps_routing:
  assumes "wallet_answer sdk config w = (Inr wc, w1)"
    and "account wc = Some acc"
    and "target_resolved rt sdk config wc (address acc) w1 sid w2 evs2"
    and "fetch sdk (spaceQuery sid) w2 = (resp, w3)"
    and "gql_result rt (rejected resp) = Inr (Some d)"
    and "space d = Some sp"
  shows "\<exists>r w' evs. publishOps rt sdk config (w, []) = (Inr r, w', evs) \<and>
     (spaceType sp = ''PERSONAL'' \<longrightarrow>
        (\<exists>out w4 rest.
           publishEdit sdk (edit_params config sid (address acc)) w3 = (out, w4) \<and>
           evs = wallet_event config (Inr wc) # evs2 @
                 [EvFetch (spaceQuery sid) (rejected resp),
                  EvPublishEdit (edit_params config sid (address acc)) out] @ rest) \<and>
        length (filter is_publishEdit evs) = 1 \<and>
        filter is_proposeEdit evs = [] \<and>
        length (filter is_fetch evs) = 1) \<and>
     (spaceType sp \<noteq> ''PERSONAL'' \<longrightarrow>
        (\<exists>resp2 w4 rest.
           fetch sdk (callerSpacesQuery (address acc)) w3 = (resp2, w4) \<and>
           evs = wallet_event config (Inr wc) # evs2 @
                 [EvFetch (spaceQuery sid) (rejected resp),
                  EvFetch (callerSpacesQuery (address acc)) (rejected resp2)] @ rest \<and>
           (\<forall>d2 cs. gql_result rt (rejected resp2) = Inr (Some d2) \<longrightarrow>
              callerSpaceOf d2 = Some cs \<longrightarrow> ref_id cs \<in> candidateIds sp \<longrightarrow>
              (\<exists>out w5 rest'.
                 proposeEdit sdk (proposal_params config sid sp cs) w4 = (out, w5) \<and>
                 rest = EvProposeEdit (proposal_params config sid sp cs) out # rest') \<and>
              length (filter is_proposeEdit evs) = 1) \<and>
           (\<not> (\<exists>d2 cs. gql_result rt (rejected resp2) = Inr (Some d2) \<and>
                 callerSpaceOf d2 = Some cs \<and> ref_id cs \<in> candidateIds sp) \<longrightarrow>
              rest = [] \<and> filter is_proposeEdit evs = [])) \<and>
        filter is_publishEdit evs = [] \<and>
        length (filter is_fetch evs) = 2)"
proof -
  let ?a = "address acc"
  let ?pre = "wallet_event config (Inr wc) # evs2"
  from target_run [OF assms(1-3), of "[]"]
  have target: "publishOps_target rt sdk config (w, []) = (Inr (wc, ?a, sid), w2, ?pre)"
    by simp
  obtain rb w' evs where
    publish: "publishOps_publish rt sdk config wc ?a sid (w2, ?pre) = (rb, w', evs)"
    by (metis prod_cases3)
  from publishOps_continued [OF target publish] obtain r where
    run: "publishOps rt sdk config (w, []) = (Inr r, w', evs)"
    by blast
  from target_resolved_events [OF assms(3)] have "\<forall>ev \<in> set ?pre. target_event ev"
    by simp
  note pre = no_events [OF this]
  show ?thesis
  proof (cases "spaceType sp = ''PERSONAL''")
    case True
    from publish_personal_call [OF publish assms(4-6) True] obtain out w4 rest where
      "publishEdit sdk (edit_params config sid ?a) w3 = (out, w4)"
      "evs = ?pre @ [EvFetch (spaceQuery sid) (rejected resp),
                     EvPublishEdit (edit_params config sid ?a) out] @ rest"
      "\<forall>ev \<in> set rest. \<not> is_publishEdit ev \<and> \<not> is_proposeEdit ev \<and> \<not> is_fetch ev"
      by blast
    with run True pre show ?thesis
      by (auto simp add: filter_empty_conv)
  next
    case False
    from publish_dao_call [OF publish assms(4-6) False] obtain resp2 w4 rest where
      dao: "fetch sdk (callerSpacesQuery ?a) w3 = (resp2, w4)"
      "evs = ?pre @ [EvFetch (spaceQuery sid) (rejected resp),
                     EvFetch (callerSpacesQuery ?a) (rejected resp2)] @ rest"
      "\<forall>ev \<in> set rest. \<not> is_publishEdit ev \<and> \<not> is_fetch ev"
      "\<forall>d2 cs. gql_result rt (rejected resp2) = Inr (Some d2) \<longrightarrow>
              callerSpaceOf d2 = Some cs \<longrightarrow> ref_id cs \<in> candidateIds sp \<longrightarrow>
              (\<exists>out w5 rest'.
                 proposeEdit sdk (proposal_params config sid sp cs) w4 = (out, w5) \<and>
                 rest = EvProposeEdit (proposal_params config sid sp cs) out # rest' \<and>
                 (\<forall>ev \<in> set rest'. \<not> is_proposeEdit ev))"
      "\<not> (\<exists>d2 cs. gql_result rt (rejected resp2) = Inr (Some d2) \<and>
                 callerSpaceOf d2 = Some cs \<and> ref_id cs \<in> candidateIds sp) \<longrightarrow> rest = []"
      by blast
    have once: "length (filter is_proposeEdit evs) = 1"
      if "gql_result rt (rejected resp2) = Inr (Some d2)" "callerSpaceOf d2 = Some cs"
        "ref_id cs \<in> candidateIds sp" for d2 cs
    proof -
      from dao(4) that obtain out rest' where
        "rest = EvProposeEdit (proposal_params config sid sp cs) out # rest'"
        "\<forall>ev \<in> set rest'. \<not> is_proposeEdit ev"
        by blast
      with dao(2) pre show ?thesis
        by (simp add: filter_empty_conv)
    qed
    have publish_none: "filter is_publishEdit evs = []" and two: "length (filter is_fetch evs) = 2"
      using dao(2,3) pre by (simp_all add: filter_empty_conv)
    have never: "rest = [] \<and> filter is_proposeEdit evs = []"
      if "\<not> (\<exists>d2 cs. gql_result rt (rejected resp2) = Inr (Some d2) \<and>
                 callerSpaceOf d2 = Some cs \<and> ref_id cs \<in> candidateIds sp)"
      using dao(2,5) that pre by (simp add: filter_empty_conv)
    from dao(4) have called: "\<forall>d2 cs. gql_result rt (rejected resp2) = Inr (Some d2) \<longrightarrow>
              callerSpaceOf d2 = Some cs \<longrightarrow> ref_id cs \<in> candidateIds sp \<longrightarrow>
              (\<exists>out w5 rest'.
                 proposeEdit sdk (proposal_params config sid sp cs) w4 = (out, w5) \<and>
                 rest = EvProposeEdit (proposal_params config sid sp cs) out # rest')"
      by blast
    have shape: "evs = wallet_event config (Inr wc) # evs2 @
                 [EvFetch (spaceQuery sid) (rejected resp),
                  EvFetch (callerSpacesQuery ?a) (rejected resp2)] @ rest"
      using dao(2) by simp
    have "\<exists>resp2 w4 rest.
           fetch sdk (callerSpacesQuery ?a) w3 = (resp2, w4) \<and>
           evs = wallet_event config (Inr wc) # evs2 @
                 [EvFetch (spaceQuery sid) (rejected resp),
                  EvFetch (callerSpacesQuery ?a) (rejected resp2)] @ rest \<and>
           (\<forall>d2 cs. gql_result rt (rejected resp2) = Inr (Some d2) \<longrightarrow>
              callerSpaceOf d2 = Some cs \<longrightarrow> ref_id cs \<in> candidateIds sp \<longrightarrow>
              (\<exists>out w5 rest'.
                 proposeEdit sdk (proposal_params config sid sp cs) w4 = (out, w5) \<and>
                 rest = EvProposeEdit (proposal_params config sid sp cs) out # rest') \<and>
              length (filter is_proposeEdit evs) = 1) \<and>
           (\<not> (\<exists>d2 cs. gql_result rt (rejected resp2) = Inr (Some d2) \<and>
                 callerSpaceOf d2 = Some cs \<and> ref_id cs \<in> candidateIds sp) \<longrightarrow>
              rest = [] \<and> filter is_proposeEdit evs = [])"
      using dao(1) shape called once never
      by (intro exI [of _ resp2] exI [of _ w4] exI [of _ rest]) blast
    with run False publish_none two show ?thesis
      by blast
  qed
qed

theorem publishOps_routing_witness:
  "wallet_answer (demo_sdk True demo_editor) (demo_config (Some ''feed'')) 0 =
     (Inr demo_wallet, 1) \<and>
   account demo_wallet = Some \<lparr>address = ''0xa11ce''\<rparr> \<and>
   target_resolved demo_runtime (demo_sdk True demo_editor) (demo_config (Some ''feed''))
     demo_wallet ''0xa11ce'' 1 ''feed'' 1 [] \<and>
   fetch (demo_sdk True demo_editor) (spaceQuery ''feed'') 1 =
     (Inr (demo_response demo_editor), 2) \<and>
   gql_result demo_runtime (rejected (Inr (demo_response demo_editor))) =
     Inr (Some demo_editor) \<and>
   space demo_editor =
     Some \<lparr>spaceType = ''DAO'', daoAddress = ''0xda0'', membersList = None,
           editorsList = Some [\<lparr>memberSpaceId = ''cafe''\<rparr>]\<rparr> \<and>
   ''DAO'' \<noteq> ''PERSONAL'' \<and>
   (\<exists>r w'. publishOps demo_runtime (demo_sdk True demo_editor) (demo_config (Some ''feed''))
        (0, []) = (Inr r, w', trace_proposed)) \<and>
   filter is_publishEdit trace_proposed = [] \<and>
   length (filter is_proposeEdit trace_proposed) = 1 \<and>
   length (filter is_fetch trace_proposed) = 2 \<and>
   fetch (demo_sdk True demo_personal) (spaceQuery ''feed'') 1 =
     (Inr (demo_response demo_personal), 2) \<and>
   gql_result demo_runtime (rejected (Inr (demo_response demo_personal))) =
     Inr (Some demo_personal) \<and>
   space demo_personal =
     Some \<lparr>spaceType = ''PERSONAL'', daoAddress = ''0xda0'', membersList = None,
           editorsList = None\<rparr> \<and>
   publishEdit (demo_sdk True demo_personal) (demo_edit ''feed'') 2 =
     (Inr \<lparr>to = ''0x5ace'', calldata = ''0xed17'', edit_cid = ''ipfs://one'',
           edit_editId = ''edit1''\<rparr>, 3) \<and>
   (\<exists>r w'. publishOps demo_runtime (demo_sdk True demo_personal) (demo_config (Some ''feed''))
        (0, []) =
      (Inr r, w',
       EvGetSmartAccountWalletClient ''0x5ec'' (Inr demo_wallet) # trace_published ''feed'')) \<and>
   length (filter is_publishEdit
     (EvGetSmartAccountWalletClient ''0x5ec'' (Inr demo_wallet) # trace_published ''feed'')) = 1 \<and>
   filter is_proposeEdit
     (EvGetSmartAccountWalletClient ''0x5ec'' (Inr demo_wallet) # trace_published ''feed'') = []"
proof -
  let ?sp = "\<lparr>spaceType = ''DAO'', daoAddress = ''0xda0'', membersList = None,
           editorsList = Some [\<lparr>memberSpaceId = ''cafe''\<rparr>]\<rparr>"
  have a: "wallet_answer (demo_sdk True demo_editor) (demo_config (Some ''feed'')) 0 =
     (Inr demo_wallet, 1)"
    by (simp add: demo_wallet_answer)
  have b: "account demo_wallet = Some \<lparr>address = ''0xa11ce''\<rparr>"
    by (simp add: demo_wallet_answer)
  have c: "target_resolved demo_runtime (demo_sdk True demo_editor) (demo_config (Some ''feed''))
     demo_wallet (address \<lparr>address = ''0xa11ce''\<rparr>) 1 ''feed'' 1 []"
    by (simp add: demo_given)
  have d: "fetch (demo_sdk True demo_editor) (spaceQuery ''feed'') 1 =
     (Inr (demo_response demo_editor), 2)"
    by (simp add: demo_fetch)
  have e: "gql_result demo_runtime (rejected (Inr (demo_response demo_editor))) =
     Inr (Some demo_editor)"
    by (simp add: demo_rejected)
  have f: "space demo_editor = Some ?sp"
    by (simp add: demo_editor_def demo_space_fields)
  from publishOps_routing [OF a b c d e f] obtain r w' evs where
    run: "publishOps demo_runtime (demo_sdk True demo_editor) (demo_config (Some ''feed''))
        (0, []) = (Inr r, w', evs)"
    and none: "filter is_publishEdit evs = []" and two: "length (filter is_fetch evs) = 2"
    by auto
  from run demo_run_editor have "evs = trace_proposed"
    by simp
  with run none two have dao:
    "\<exists>r w'. publishOps demo_runtime (demo_sdk True demo_editor) (demo_config (Some ''feed''))
        (0, []) = (Inr r, w', trace_proposed)"
    "filter is_publishEdit trace_proposed = []"
    "length (filter is_fetch trace_proposed) = 2"
    by auto
  have one: "length (filter is_proposeEdit trace_proposed) = 1"
    by (simp add: trace_proposed_def)
  let ?own = "\<lparr>spaceType = ''PERSONAL'', daoAddress = ''0xda0'', membersList = None,
           editorsList = None\<rparr>"
  let ?tr = "EvGetSmartAccountWalletClient ''0x5ec'' (Inr demo_wallet) # trace_published ''feed''"
  have a': "wallet_answer (demo_sdk True demo_personal) (demo_config (Some ''feed'')) 0 =
     (Inr demo_wallet, 1)"
    by (simp add: demo_wallet_answer)
  have c': "target_resolved demo_runtime (demo_sdk True demo_personal)
     (demo_config (Some ''feed'')) demo_wallet (address \<lparr>address = ''0xa11ce''\<rparr>) 1 ''feed'' 1 []"
    by (simp add: demo_given)
  have d': "fetch (demo_sdk True demo_personal) (spaceQuery ''feed'') 1 =
     (Inr (demo_response demo_personal), 2)"
    by (simp add: demo_fetch)
  have e': "gql_result demo_runtime (rejected (Inr (demo_response demo_personal))) =
     Inr (Some demo_personal)"
    by (simp add: demo_rejected)
  have f': "space demo_personal = Some ?own"
    by (simp add: demo_personal_def demo_space_fields)
  have g': "publishEdit (demo_sdk True demo_personal) (demo_edit ''feed'') 2 =
     (Inr \<lparr>to = ''0x5ace'', calldata = ''0xed17'', edit_cid = ''ipfs://one'',
           edit_editId = ''edit1''\<rparr>, 3)"
    by (simp add: demo_sdk_def)
  from publishOps_routing [OF a' b c' d' e' f'] obtain r' w'' evs' where
    run': "publishOps demo_runtime (demo_sdk True demo_personal) (demo_config (Some ''feed''))
        (0, []) = (Inr r', w'', evs')"
    and once: "length (filter is_publishEdit evs') = 1" "filter is_proposeEdit evs' = []"
    by auto
  from run' demo_run_personal have "evs' = ?tr"
    by simp
  with run' once have personal:
    "\<exists>r w'. publishOps demo_runtime (demo_sdk True demo_personal) (demo_config (Some ''feed''))
        (0, []) = (Inr r, w', ?tr)"
    "length (filter is_publishEdit ?tr) = 1"
    "filter is_proposeEdit ?tr = []"
    by auto
  have kind: "''DAO'' \<noteq> ''PERSONAL''"
    by simp
  have c0: "target_resolved demo_runtime (demo_sdk True demo_editor) (demo_config (Some ''feed''))
     demo_wallet ''0xa11ce'' 1 ''feed'' 1 []"
    by (simp add: demo_given)
  from a b c0 d e f kind dao(1,2) one dao(3) d' e' f' g' personal show ?thesis
    by (intro conjI)
qed



subsection \<open>The target space does not exist\<close>

lemma publish_not_found:
  assumes "publishOps_publish rt sdk config wc a sid (w, tr) =
      (r, w', tr @ EvFetch (spaceQuery sid) resp # rest)"
    and "gql_result rt resp = Inr (Some d)" and "space d = None"
  shows "rest = [] \<and> r = Inl (JsError (''Space '' @ sid @ '' not found''))"
proof -
  let ?Q = "\<lambda>r tr'. \<forall>resp rest d. tr' = tr @ EvFetch (spaceQuery sid) resp # rest \<longrightarrow>
      gql_result rt resp = Inr (Some d) \<longrightarrow> space d = None \<longrightarrow>
      rest = [] \<and> r = Inl (JsError (''Space '' @ sid @ '' not found''))"
  have "post (publishOps_publish rt sdk config wc a sid) w tr
          (\<lambda>x w' tr'. ?Q (Inr x) tr') (\<lambda>e w' tr'. ?Q (Inl e) tr')"
    by (simp add: publishOps_publish_def post_simps post_gql Let_def)
  from postD [OF this assms(1)] assms(2,3) show ?thesis
    by (auto split: sum.splits)
qed

lemma demo_run_not_found:
  "publishOps demo_runtime (demo_sdk True demo_nothing) (demo_config (Some ''feed'')) (0, []) =
     (Inr \<lparr>success = False, editId = None, cid = None, transactionHash = None,
           spaceId = None, error = Some ''Space feed not found''\<rparr>,
      2,
      [EvGetSmartAccountWalletClient ''0x5ec'' (Inr demo_wallet),
       EvFetch (spaceQuery ''feed'') (Inr (demo_response demo_nothing))])"
  by (simp add: run_defs demo_nothing_def)

text \<open>
  C5. When the Space Directory answers the request for the target space with data that
  holds no space, \<open>publishOps\<close> returns \<open>success: false\<close> with the error
  \<open>Space <id> not found\<close>, which contains \<open>not found\<close>. That request is the last
  outside call of the invocation: no publisher is called and no publish transaction is
  submitted.
\<close>

theorem publishOps_space_not_found:
  assumes "publishOps rt sdk config (w, []) = (r, w', evs)"
    and "EvFetch (spaceQuery sid) resp \<in> set evs"
    and "gql_result rt resp = Inr (Some d)"
    and "space d = None"
  shows "r = Inr \<lparr>success = False, editId = None, cid = None, transactionHash = None,
                  spaceId = None, error = Some (''Space '' @ sid @ '' not found'')\<rparr> \<and>
         sublist ''not found'' (''Space '' @ sid @ '' not found'') \<and>
         last evs = EvFetch (spaceQuery sid) resp \<and>
         (\<forall>ev \<in> set evs. \<not> is_publishEdit ev \<and> \<not> is_proposeEdit ev \<and> \<not> sent PublishTx ev)"
  using assms(1,2)
proof (cases rule: space_lookup)
  case (1 wc a w1 tr1 rb rest)
  from publish_not_found [OF 1(2) [unfolded 1(4)] assms(3,4)]
  have rest: "rest = []" and rb: "rb = Inl (JsError (''Space '' @ sid @ '' not found''))"
    by simp_all
  have "sublist ''not found'' ((''Space '' @ sid @ '' '') @ ''not found'' @ [])"
    unfolding sublist_def by blast
  then have "sublist ''not found'' (''Space '' @ sid @ '' not found'')"
    by simp
  with 1(3,4,5) rest rb show ?thesis
    by (auto simp add: failure_def dest: target_event_kind)
qed

theorem publishOps_space_not_found_witness:
  "publishOps demo_runtime (demo_sdk True demo_nothing) (demo_config (Some ''feed'')) (0, []) =
     (Inr \<lparr>success = False, editId = None, cid = None, transactionHash = None,
           spaceId = None, error = Some ''Space feed not found''\<rparr>,
      2,
      [EvGetSmartAccountWalletClient ''0x5ec'' (Inr demo_wallet),
       EvFetch (spaceQuery ''feed'') (Inr (demo_response demo_nothing))]) \<and>
   EvFetch (spaceQuery ''feed'') (Inr (demo_response demo_nothing)) \<in>
     set [EvGetSmartAccountWalletClient ''0x5ec'' (Inr demo_wallet),
          EvFetch (spaceQuery ''feed'') (Inr (demo_response demo_nothing))] \<and>
   gql_result demo_runtime (Inr (demo_response demo_nothing)) = Inr (Some demo_nothing) \<and>
   space demo_nothing = None \<and>
   sublist ''not found'' ''Space feed not found''"
proof -
  have c: "gql_result demo_runtime (Inr (demo_response demo_nothing)) = Inr (Some demo_nothing)"
    by (simp add: gql_result_def demo_response_def)
  have d: "space demo_nothing = None"
    by (simp add: demo_nothing_def)
  from publishOps_space_not_found [OF demo_run_not_found _ c d]
  show ?thesis using demo_run_not_found c d
    by simp
qed

subsection \<open>The caller is not a member or editor\<close>

text \<open>
  C4. Take an invocation whose target space has a governance kind other than
  \<open>PERSONAL\<close>, in which the reverse lookup found the caller's personal space. If the id
  of that space is in neither \<open>membersList\<close> nor \<open>editorsList\<close> of the target
  space, \<open>publishOps\<close> returns \<open>success: false\<close> with an error that contains
  \<open>not a member or editor\<close>. The reverse lookup is the last outside call of the
  invocation: \<open>daoSpace.proposeEdit\<close> is not called and no publish transaction is
  submitted.
\<close>

theorem publishOps_not_member:
  assumes "publishOps rt sdk config (w, []) = (r, w', evs)"
    and "EvFetch (spaceQuery sid) resp \<in> set evs"
    and "gql_result rt resp = Inr (Some d)"
    and "space d = Some sp"
    and "spaceType sp \<noteq> ''PERSONAL''"
    and "EvFetch (callerSpacesQuery a) resp2 \<in> set evs"
    and "gql_result rt resp2 = Inr (Some d2)"
    and "callerSpaceOf d2 = Some cs"
    and "ref_id cs \<notin> candidateIds sp"
  shows "r = Inr \<lparr>success = False, editId = None, cid = None, transactionHash = None,
                  spaceId = None, error = Some (not_member_message (ref_id cs) sid)\<rparr> \<and>
         sublist ''not a member or editor'' (not_member_message (ref_id cs) sid) \<and>
         last evs = EvFetch (callerSpacesQuery a) resp2 \<and>
         (\<forall>ev \<in> set evs. \<not> is_proposeEdit ev \<and> \<not> sent PublishTx ev)"
  using assms(1,2)
proof (cases rule: space_lookup)
  case (1 wc a0 w1 tr1 rb rest)
  from publish_dao [OF 1(2) [unfolded 1(4)] assms(3,4,5)] obtain resp2' rest2 where
    rest: "rest = EvFetch (callerSpacesQuery a0) resp2' # rest2"
    and rest2: "\<forall>ev \<in> set rest2. \<not> is_publishEdit ev \<and> \<not> is_fetch ev"
    and check: "\<forall>d2 cs. gql_result rt resp2' = Inr (Some d2) \<longrightarrow> callerSpaceOf d2 = Some cs \<longrightarrow>
          (if ref_id cs \<in> candidateIds sp
           then \<exists>p out rest3. rest2 = EvProposeEdit p out # rest3 \<and> pr_author p = ref_id cs
           else rest2 = [] \<and> rb = Inl (JsError (not_member_message (ref_id cs) sid)))"
    by blast
  from caller_lookup [OF 1(4) [unfolded rest] 1(5) rest2 assms(6)]
  have same: "a = a0" "resp2 = resp2'"
    by simp_all
  from check assms(7,8,9) same have "rest2 = []"
    and "rb = Inl (JsError (not_member_message (ref_id cs) sid))"
    by auto
  with 1(3,4,5) rest same not_member_sublist [of "ref_id cs" sid] show ?thesis
    by (auto simp add: failure_def dest: target_event_kind)
qed

theorem publishOps_not_member_witness:
  "publishOps demo_runtime (demo_sdk True demo_outsider) (demo_config (Some ''feed'')) (0, []) =
     (Inr (demo_failed (not_member_message ''cafe'' ''feed'')), 3, trace_rejected demo_outsider) \<and>
   EvFetch (spaceQuery ''feed'') (Inr (demo_response demo_outsider)) \<in>
     set (trace_rejected demo_outsider) \<and>
   gql_result demo_runtime (Inr (demo_response demo_outsider)) = Inr (Some demo_outsider) \<and>
   space demo_outsider =
     Some \<lparr>spaceType = ''DAO'', daoAddress = ''0xda0'',
           membersList = Some [\<lparr>memberSpaceId = ''beef''\<rparr>], editorsList = Some []\<rparr> \<and>
   ''DAO'' \<noteq> ''PERSONAL'' \<and>
   EvFetch (callerSpacesQuery ''0xa11ce'') (Inr (demo_response demo_outsider)) \<in>
     set (trace_rejected demo_outsider) \<and>
   callerSpaceOf demo_outsider = Some \<lparr>ref_id = ''cafe'', ref_type = ''PERSONAL''\<rparr> \<and>
   ''cafe'' \<notin> candidateIds
     \<lparr>spaceType = ''DAO'', daoAddress = ''0xda0'',
      membersList = Some [\<lparr>memberSpaceId = ''beef''\<rparr>], editorsList = Some []\<rparr> \<and>
   sublist ''not a member or editor'' (not_member_message ''cafe'' ''feed'') \<and>
   last (trace_rejected demo_outsider) =
     EvFetch (callerSpacesQuery ''0xa11ce'') (Inr (demo_response demo_outsider)) \<and>
   filter is_proposeEdit (trace_rejected demo_outsider) = [] \<and>
   filter (sent PublishTx) (trace_rejected demo_outsider) = []"
proof -
  let ?sp = "\<lparr>spaceType = ''DAO'', daoAddress = ''0xda0'',
      membersList = Some [\<lparr>memberSpaceId = ''beef''\<rparr>], editorsList = Some []\<rparr>"
  have a: "EvFetch (spaceQuery ''feed'') (Inr (demo_response demo_outsider)) \<in>
      set (trace_rejected demo_outsider)"
    by (simp add: trace_rejected_def)
  have b: "space demo_outsider = Some ?sp"
    by (simp add: demo_outsider_def demo_space_fields)
  have c: "spaceType ?sp \<noteq> ''PERSONAL''"
    by simp
  have d: "EvFetch (callerSpacesQuery ''0xa11ce'') (Inr (demo_response demo_outsider)) \<in>
      set (trace_rejected demo_outsider)"
    by (simp add: trace_rejected_def)
  have e: "callerSpaceOf demo_outsider = Some \<lparr>ref_id = ''cafe'', ref_type = ''PERSONAL''\<rparr>"
    by (simp add: demo_outsider_def demo_space_fields)
  have f: "ref_id \<lparr>ref_id = ''cafe'', ref_type = ''PERSONAL''\<rparr> \<notin> candidateIds ?sp"
    by (simp add: candidateIds_def or_empty_def)
  from publishOps_not_member [OF demo_run_outsider a demo_gql_result b c d demo_gql_result e f]
  show ?thesis using demo_run_outsider a b d e f
    by (simp add: demo_gql_result filter_empty_conv)
qed

subsection \<open>Missing member lists\<close>



subsection \<open>Errors stay inside\<close>

lemma wallet_event_not_publish [simp]: "\<not> publish_event (wallet_event config out)"
  by (simp add: wallet_event_def)

lemma failed_step:
  assumes "publishOps rt sdk config (w, []) = (Inr res, w', evs)"
    and "ev \<in> set evs" and "thrown_of rt ev = Some e"
  shows "ev = last evs \<and> res = failure e"
  using assms(1)
proof (cases rule: publishOps_run)
  case (target_failed e')
  from target_new_events [OF target_failed(1)] target_failed(2) assms(2,3) show ?thesis
    by auto
next
  case (published wc a sid w1 tr1 rb)
  from target_new_events [OF published(1)]
  have tr1: "\<forall>ev \<in> set tr1. thrown_of rt ev = None"
    by auto
  from publish_new_events [OF published(2)] obtain new where
    new: "evs = tr1 @ new" "new \<noteq> []"
    "\<forall>ev \<in> set new. \<forall>e. thrown_of rt ev = Some e \<longrightarrow> ev = last new \<and> rb = Inl e"
    by blast
  with tr1 published(3) assms(2,3) show ?thesis
    by auto
qed

lemma missing_account:
  assumes "publishOps rt sdk config (w, []) = (Inr res, w', evs)"
    and "wallet_event config (Inr wc) \<in> set evs" and "account wc = None"
  shows "evs = [wallet_event config (Inr wc)] \<and> res = failure (TypeError rt ''address'')"
  using assms(1)
proof (cases rule: publishOps_run)
  case (target_failed e)
  from target_account [OF target_failed(1) assms(2,3)] target_failed(2) show ?thesis
    by simp
next
  case (published wc' a sid w1 tr1 rb)
  from publish_new_events [OF published(2)] obtain new where
    "evs = tr1 @ new" "\<forall>ev \<in> set new. publish_event ev"
    by blast
  with assms(2) have "wallet_event config (Inr wc) \<in> set tr1"
    by auto
  from target_account [OF published(1) this assms(3)] show ?thesis
    by simp
qed

lemma space_lookup_failed:
  assumes "publishOps rt sdk config (w, []) = (Inr res, w', evs)"
    and "EvFetch (spaceQuery sid) resp \<in> set evs"
  shows "gql_result rt resp = Inr None \<Longrightarrow>
           last evs = EvFetch (spaceQuery sid) resp \<and> res = failure (TypeError rt ''space'')"
    and "gql_result rt resp = Inr (Some d) \<Longrightarrow> space d = None \<Longrightarrow>
           last evs = EvFetch (spaceQuery sid) resp \<and>
           res = failure (JsError (''Space '' @ sid @ '' not found''))"
proof -
  from assms obtain wc a w1 tr1 rb rest where
    publish: "publishOps_publish rt sdk config wc a sid (w1, tr1) =
        (rb, w', tr1 @ EvFetch (spaceQuery sid) resp # rest)"
    and res: "Inr res = Inr (case rb of Inl e \<Rightarrow> failure e | Inr res \<Rightarrow> res)"
    and evs: "evs = tr1 @ EvFetch (spaceQuery sid) resp # rest"
    by (cases rule: space_lookup) auto
  show "last evs = EvFetch (spaceQuery sid) resp \<and> res = failure (TypeError rt ''space'')"
    if "gql_result rt resp = Inr None"
    using publish_null_data [OF publish that] res evs by simp
  show "last evs = EvFetch (spaceQuery sid) resp \<and>
      res = failure (JsError (''Space '' @ sid @ '' not found''))"
    if "gql_result rt resp = Inr (Some d)" "space d = None"
    using publish_not_found [OF publish that] res evs by simp
qed

lemma caller_lookup_failed:
  assumes "publishOps rt sdk config (w, []) = (Inr res, w', evs)"
    and "EvFetch (callerSpacesQuery a) resp2 \<in> set evs"
  shows "(gql_result rt resp2 = Inr None \<longrightarrow>
           last evs = EvFetch (callerSpacesQuery a) resp2 \<and>
           res = failure (TypeError rt ''spaces'')) \<and>
         (\<forall>d2. gql_result rt resp2 = Inr (Some d2) \<longrightarrow> callerSpaceOf d2 = None \<longrightarrow>
           last evs = EvFetch (callerSpacesQuery a) resp2 \<and>
           res = failure (JsError (''No personal space found for wallet '' @ a))) \<and>
         (\<forall>d2 cs sid resp d sp.
           gql_result rt resp2 = Inr (Some d2) \<longrightarrow> callerSpaceOf d2 = Some cs \<longrightarrow>
           EvFetch (spaceQuery sid) resp \<in> set evs \<longrightarrow>
           gql_result rt resp = Inr (Some d) \<longrightarrow> space d = Some sp \<longrightarrow>
           ref_id cs \<notin> candidateIds sp \<longrightarrow>
           last evs = EvFetch (callerSpacesQuery a) resp2 \<and>
           res = failure (JsError (not_member_message (ref_id cs) sid)))"
  using assms(1)
proof (cases rule: publishOps_run)
  case (target_failed e)
  from target_events [OF target_failed(1)] assms(2) show ?thesis
    by auto
next
  case (published wc a0 sid0 w1 tr1 rb)
  from target_events [OF published(1)] have tr1: "\<forall>ev \<in> set tr1. target_event ev"
    by simp
  from publish_events [OF published(2)] obtain resp0 rest where
    evs: "evs = tr1 @ EvFetch (spaceQuery sid0) resp0 # rest"
    and rest: "\<forall>q resp2. EvFetch q resp2 \<in> set rest \<longrightarrow> q = callerSpacesQuery a0"
    by blast
  from assms(2) evs tr1 have inside: "EvFetch (callerSpacesQuery a) resp2 \<in> set rest"
    by auto
  have same: "sid = sid0 \<and> resp = resp0" if "EvFetch (spaceQuery sid) resp \<in> set evs"
    for sid resp
    using that evs tr1 rest by auto
  note sites = publish_caller_lookup [OF published(2) [unfolded evs] inside]
  from sites have a: "a = a0"
    by simp
  from sites have null: "rest = [EvFetch (callerSpacesQuery a0) resp2] \<and>
      rb = Inl (TypeError rt ''spaces'')"
    if "gql_result rt resp2 = Inr None"
    using that by blast
  from sites have none: "rest = [EvFetch (callerSpacesQuery a0) resp2] \<and>
      rb = Inl (JsError (''No personal space found for wallet '' @ a0))"
    if "gql_result rt resp2 = Inr (Some d2)" "callerSpaceOf d2 = None" for d2
    using that by blast
  from sites have outside: "rest = [EvFetch (callerSpacesQuery a0) resp2] \<and>
      rb = Inl (JsError (not_member_message (ref_id cs) sid0))"
    if "gql_result rt resp2 = Inr (Some d2)" "callerSpaceOf d2 = Some cs"
      "gql_result rt resp0 = Inr (Some d)" "space d = Some sp" "ref_id cs \<notin> candidateIds sp"
    for d2 cs d sp
    using that by blast
  have fin: "last evs = EvFetch (callerSpacesQuery a) resp2 \<and> res = failure e"
    if "rest = [EvFetch (callerSpacesQuery a0) resp2] \<and> rb = Inl e" for e
    using that evs a published(3) by simp
  show ?thesis
  proof (intro conjI allI impI)
    assume "gql_result rt resp2 = Inr None"
    from fin [OF null [OF this]]
    show "last evs = EvFetch (callerSpacesQuery a) resp2"
      and "res = failure (TypeError rt ''spaces'')"
      by simp_all
  next
    fix d2
    assume "gql_result rt resp2 = Inr (Some d2)" "callerSpaceOf d2 = None"
    from fin [OF none [OF this]] a
    show "last evs = EvFetch (callerSpacesQuery a) resp2"
      and "res = failure (JsError (''No personal space found for wallet '' @ a))"
      by simp_all
  next
    fix d2 cs sid resp d sp
    assume caller: "gql_result rt resp2 = Inr (Some d2)" "callerSpaceOf d2 = Some cs"
      and target: "EvFetch (spaceQuery sid) resp \<in> set evs"
        "gql_result rt resp = Inr (Some d)" "space d = Some sp"
        "ref_id cs \<notin> candidateIds sp"
    from same [OF target(1)] target(2) have "gql_result rt resp0 = Inr (Some d)" "sid = sid0"
      by simp_all
    from fin [OF outside [OF caller this(1) target(3,4)]] this(2)
    show "last evs = EvFetch (callerSpacesQuery a) resp2"
      and "res = failure (JsError (not_member_message (ref_id cs) sid))"
      by simp_all
  qed
qed

lemma succeeded:
  assumes "publishOps rt sdk config (w, []) = (Inr res, w', evs)"
    and "success res"
  shows "\<exists>tx h. drop (length evs - 2) evs =
           [EvSendTransaction PublishTx tx (Inr h), EvWaitForTransactionReceipt h (Inr ())]"
  using assms(1)
proof (cases rule: publishOps_run)
  case (target_failed e)
  with assms(2) show ?thesis
    by (simp add: failure_def)
next
  case (published wc a sid w1 tr1 rb)
  with assms(2) obtain x where "rb = Inr x"
    by (cases rb) (simp_all add: failure_def)
  with publish_outcome [OF published(2)] show ?thesis
    by simp
qed

lemma failed:
  assumes "publishOps rt sdk config (w, []) = (Inr res, w', evs)"
    and "\<not> success res"
  shows "\<exists>e. res = failure e \<and>
     (thrown_of rt (last evs) = Some e \<or>
      (\<exists>wc. last evs = wallet_event config (Inr wc) \<and> account wc = None \<and>
         e = TypeError rt ''address'') \<or>
      (\<exists>sid resp. last evs = EvFetch (spaceQuery sid) resp \<and>
         (gql_result rt resp = Inr None \<and> e = TypeError rt ''space'' \<or>
          (\<exists>d. gql_result rt resp = Inr (Some d) \<and> space d = None \<and>
             e = JsError (''Space '' @ sid @ '' not found'')))) \<or>
      (\<exists>a resp2. last evs = EvFetch (callerSpacesQuery a) resp2 \<and>
         (gql_result rt resp2 = Inr None \<and> e = TypeError rt ''spaces'' \<or>
          (\<exists>d2. gql_result rt resp2 = Inr (Some d2) \<and>
             (callerSpaceOf d2 = None \<and>
                e = JsError (''No personal space found for wallet '' @ a) \<or>
              (\<exists>cs sid. callerSpaceOf d2 = Some cs \<and>
                 e = JsError (not_member_message (ref_id cs) sid)))))))"
  using assms(1)
proof (cases rule: publishOps_run)
  case (target_failed e)
  from target_outcome [OF target_failed(1)]
  have "thrown_of rt (last evs) = Some e \<or>
      (\<exists>wc. last evs = wallet_event config (Inr wc) \<and> account wc = None \<and>
         e = TypeError rt ''address'')"
    by auto
  with target_failed(2) show ?thesis
    by blast
next
  case (published wc a sid w1 tr1 rb)
  from publish_new_events [OF published(2)] have "\<forall>x. rb = Inr x \<longrightarrow> success x"
    by blast
  with assms(2) published(3) obtain e where e: "rb = Inl e" "res = failure e"
    by (cases rb) auto
  from publish_outcome [OF published(2)] e(1)
  have "thrown_of rt (last evs) = Some e \<or>
             (\<exists>resp. last evs = EvFetch (spaceQuery sid) resp \<and>
                (gql_result rt resp = Inr None \<and> e = TypeError rt ''space'' \<or>
                 (\<exists>d. gql_result rt resp = Inr (Some d) \<and> space d = None \<and>
                    e = JsError (''Space '' @ sid @ '' not found'')))) \<or>
             (\<exists>resp2. last evs = EvFetch (callerSpacesQuery a) resp2 \<and>
                (gql_result rt resp2 = Inr None \<and> e = TypeError rt ''spaces'' \<or>
                 (\<exists>d2. gql_result rt resp2 = Inr (Some d2) \<and>
                    (callerSpaceOf d2 = None \<and>
                       e = JsError (''No personal space found for wallet '' @ a) \<or>
                     (\<exists>cs. callerSpaceOf d2 = Some cs \<and>
                        e = JsError (not_member_message (ref_id cs) sid))))))"
    by simp
  with e(2) show ?thesis
    by blast
qed

text \<open>
  C1. For every configuration, every behaviour of the outside parties and every starting
  world, \<open>publishOps\<close> returns a \<open>PublishResult\<close> and does not throw. Every failure
  inside the invocation ends it, and the result is what the \<open>catch\<close> block makes of the
  thrown value (\<open>success: false\<close> with the message of the thrown \<open>Error\<close>, or
  \<open>Unknown error\<close> for a thrown value that is not an \<open>Error\<close>):

    \<^item> an outside call that rejects, or \<open>gql\<close> throwing on the answer of a \<open>fetch\<close>;
    \<^item> a wallet client without an account (the \<open>TypeError\<close> of reading \<open>address\<close>);
    \<^item> a null answer to the request for the target space (the \<open>TypeError\<close> of reading
      \<open>space\<close>), or an answer without a space (\<open>Space <id> not found\<close>);
    \<^item> a null answer to the reverse lookup (the \<open>TypeError\<close> of reading \<open>spaces\<close>),
      an answer without a \<open>PERSONAL\<close> space of the caller
      (\<open>No personal space found for wallet <address>\<close>), or a caller space that is in
      neither list of the target (\<open>Your personal space (<id>) is not a member or editor of
      DAO space <id>\<close>).

  A result with \<open>success: true\<close> is returned only by an invocation whose last two outside
  calls are the submission of the publish transaction and its confirmed receipt. A result
  with \<open>success: false\<close> is always the failure of one of the steps above, and that step
  is the last outside call of the invocation.
\<close>

theorem publishOps_never_throws:
  "\<exists>res w' evs. publishOps rt sdk config (w, []) = (Inr res, w', evs) \<and>
     (\<forall>ev \<in> set evs. \<forall>e. thrown_of rt ev = Some e \<longrightarrow> ev = last evs \<and> res = failure e) \<and>
     (\<forall>wc. wallet_event config (Inr wc) \<in> set evs \<longrightarrow> account wc = None \<longrightarrow>
        evs = [wallet_event config (Inr wc)] \<and> res = failure (TypeError rt ''address'')) \<and>
     (\<forall>sid resp. EvFetch (spaceQuery sid) resp \<in> set evs \<longrightarrow>
        (gql_result rt resp = Inr None \<longrightarrow>
           last evs = EvFetch (spaceQuery sid) resp \<and> res = failure (TypeError rt ''space'')) \<and>
        (\<forall>d. gql_result rt resp = Inr (Some d) \<longrightarrow> space d = None \<longrightarrow>
           last evs = EvFetch (spaceQuery sid) resp \<and>
           res = failure (JsError (''Space '' @ sid @ '' not found'')))) \<and>
     (\<forall>a resp2. EvFetch (callerSpacesQuery a) resp2 \<in> set evs \<longrightarrow>
        (gql_result rt resp2 = Inr None \<longrightarrow>
           last evs = EvFetch (callerSpacesQuery a) resp2 \<and>
           res = failure (TypeError rt ''spaces'')) \<and>
        (\<forall>d2. gql_result rt resp2 = Inr (Some d2) \<longrightarrow> callerSpaceOf d2 = None \<longrightarrow>
           last evs = EvFetch (callerSpacesQuery a) resp2 \<and>
           res = failure (JsError (''No personal space found for wallet '' @ a))) \<and>
        (\<forall>d2 cs sid resp d sp.
           gql_result rt resp2 = Inr (Some d2) \<longrightarrow> callerSpaceOf d2 = Some cs \<longrightarrow>
           EvFetch (spaceQuery sid) resp \<in> set evs \<longrightarrow>
           gql_result rt resp = Inr (Some d) \<longrightarrow> space d = Some sp \<longrightarrow>
           ref_id cs \<notin> candidateIds sp \<longrightarrow>
           last evs = EvFetch (callerSpacesQuery a) resp2 \<and>
           res = failure (JsError (not_member_message (ref_id cs) sid)))) \<and>
     (success res \<longrightarrow>
        (\<exists>tx h. drop (length evs - 2) evs =
           [EvSendTransaction PublishTx tx (Inr h), EvWaitForTransactionReceipt h (Inr ())])) \<and>
     (\<not> success res \<longrightarrow>
        (\<exists>e. res = failure e \<and>
           error res = Some (case e of JsError m \<Rightarrow> m | _ \<Rightarrow> ''Unknown error'') \<and>
           (thrown_of rt (last evs) = Some e \<or>
            (\<exists>wc. last evs = wallet_event config (Inr wc) \<and> account wc = None \<and>
               e = TypeError rt ''address'') \<or>
            (\<exists>sid resp. last evs = EvFetch (spaceQuery sid) resp \<and>
               (gql_result rt resp = Inr None \<and> e = TypeError rt ''space'' \<or>
                (\<exists>d. gql_result rt resp = Inr (Some d) \<and> space d = None \<and>
                   e = JsError (''Space '' @ sid @ '' not found'')))) \<or>
            (\<exists>a resp2. last evs = EvFetch (callerSpacesQuery a) resp2 \<and>
               (gql_result rt resp2 = Inr None \<and> e = TypeError rt ''spaces'' \<or>
                (\<exists>d2. gql_result rt resp2 = Inr (Some d2) \<and>
                   (callerSpaceOf d2 = None \<and>
                      e = JsError (''No personal space found for wallet '' @ a) \<or>
                    (\<exists>cs sid. callerSpaceOf d2 = Some cs \<and>
                       e = JsError (not_member_message (ref_id cs) sid)))))))))"
  (is "\<exists>res w' evs. ?run res w' evs \<and> ?step res evs \<and> ?account res evs \<and> ?space res evs \<and>
        ?caller res evs \<and> ?succeeded res evs \<and> ?failed res evs")
proof -
  obtain res w' evs where run: "publishOps rt sdk config (w, []) = (Inr res, w', evs)"
    by (rule publishOps_returns)
  have step: "?step res evs"
    using failed_step [OF run] by blast
  have account: "?account res evs"
    using missing_account [OF run] by blast
  have space: "?space res evs"
    using space_lookup_failed [OF run] by blast
  have caller: "?caller res evs"
    using caller_lookup_failed [OF run] by blast
  have succeeded: "?succeeded res evs"
    using succeeded [OF run] by blast
  have failed: "?failed res evs"
  proof
    assume "\<not> success res"
    from failed [OF run this] obtain e where e: "res = failure e"
      and "thrown_of rt (last evs) = Some e \<or>
            (\<exists>wc. last evs = wallet_event config (Inr wc) \<and> account wc = None \<and>
               e = TypeError rt ''address'') \<or>
            (\<exists>sid resp. last evs = EvFetch (spaceQuery sid) resp \<and>
               (gql_result rt resp = Inr None \<and> e = TypeError rt ''space'' \<or>
                (\<exists>d. gql_result rt resp = Inr (Some d) \<and> space d = None \<and>
                   e = JsError (''Space '' @ sid @ '' not found'')))) \<or>
            (\<exists>a resp2. last evs = EvFetch (callerSpacesQuery a) resp2 \<and>
               (gql_result rt resp2 = Inr None \<and> e = TypeError rt ''spaces'' \<or>
                (\<exists>d2. gql_result rt resp2 = Inr (Some d2) \<and>
                   (callerSpaceOf d2 = None \<and>
                      e = JsError (''No personal space found for wallet '' @ a) \<or>
                    (\<exists>cs sid. callerSpaceOf d2 = Some cs \<and>
                       e = JsError (not_member_message (ref_id cs) sid))))))"
      by blast
    moreover from e have "error res = Some (case e of JsError m \<Rightarrow> m | _ \<Rightarrow> ''Unknown error'')"
      by (simp add: failure_def)
    ultimately show "\<exists>e. res = failure e \<and>
           error res = Some (case e of JsError m \<Rightarrow> m | _ \<Rightarrow> ''Unknown error'') \<and>
           (thrown_of rt (last evs) = Some e \<or>
            (\<exists>wc. last evs = wallet_event config (Inr wc) \<and> account wc = None \<and>
               e = TypeError rt ''address'') \<or>
            (\<exists>sid resp. last evs = EvFetch (spaceQuery sid) resp \<and>
               (gql_result rt resp = Inr None \<and> e = TypeError rt ''space'' \<or>
                (\<exists>d. gql_result rt resp = Inr (Some d) \<and> space d = None \<and>
                   e = JsError (''Space '' @ sid @ '' not found'')))) \<or>
            (\<exists>a resp2. last evs = EvFetch (callerSpacesQuery a) resp2 \<and>
               (gql_result rt resp2 = Inr None \<and> e = TypeError rt ''spaces'' \<or>
                (\<exists>d2. gql_result rt resp2 = Inr (Some d2) \<and>
                   (callerSpaceOf d2 = None \<and>
                      e = JsError (''No personal space found for wallet '' @ a) \<or>
                    (\<exists>cs sid. callerSpaceOf d2 = Some cs \<and>
                       e = JsError (not_member_message (ref_id cs) sid)))))))"
      by blast
  qed
  from run step account space caller succeeded failed
  have "?run res w' evs \<and> ?step res evs \<and> ?account res evs \<and> ?space res evs \<and>
        ?caller res evs \<and> ?succeeded res evs \<and> ?failed res evs"
    by (intro conjI)
  then show ?thesis
    by (intro exI)
qed

theorem publishOps_never_throws_witness:
  "publishOps demo_runtime demo_offline (demo_config (Some ''feed'')) (0, []) =
     (Inr (demo_failed ''fetch failed''), 2, trace_offline) \<and>
   EvFetch (spaceQuery ''feed'') (Inl (JsError ''fetch failed'')) \<in> set trace_offline \<and>
   thrown_of demo_runtime (EvFetch (spaceQuery ''feed'') (Inl (JsError ''fetch failed''))) =
     Some (JsError ''fetch failed'') \<and>
   EvFetch (spaceQuery ''feed'') (Inl (JsError ''fetch failed'')) = last trace_offline \<and>
   demo_failed ''fetch failed'' = failure (JsError ''fetch failed'') \<and>
   \<not> success (demo_failed ''fetch failed'') \<and>
   publishOps demo_runtime (demo_sdk True demo_nothing) (demo_config (Some ''feed'')) (0, []) =
     (Inr \<lparr>success = False, editId = None, cid = None, transactionHash = None,
           spaceId = None, error = Some ''Space feed not found''\<rparr>,
      2,
      [EvGetSmartAccountWalletClient ''0x5ec'' (Inr demo_wallet),
       EvFetch (spaceQuery ''feed'') (Inr (demo_response demo_nothing))]) \<and>
   gql_result demo_runtime (Inr (demo_response demo_nothing)) = Inr (Some demo_nothing) \<and>
   space demo_nothing = None \<and>
   \<lparr>success = False, editId = None, cid = None, transactionHash = None,
     spaceId = None, error = Some ''Space feed not found''\<rparr> =
     failure (JsError (''Space '' @ ''feed'' @ '' not found''))"
proof -
  let ?ev = "EvFetch (spaceQuery ''feed'') (Inl (JsError ''fetch failed''))"
  let ?ask = "EvFetch (spaceQuery ''feed'') (Inr (demo_response demo_nothing))"
  let ?tr = "[EvGetSmartAccountWalletClient ''0x5ec'' (Inr demo_wallet), ?ask]"
  let ?res = "\<lparr>success = False, editId = None, cid = None, transactionHash = None,
     spaceId = None, error = Some ''Space feed not found''\<rparr>"
  have a: "?ev \<in> set trace_offline"
    by (simp add: trace_offline_def)
  have b: "thrown_of demo_runtime ?ev = Some (JsError ''fetch failed'')"
    by (simp add: gql_result_def thrown_in_def)
  have c: "\<not> success (demo_failed ''fetch failed'')"
    by (simp add: demo_failed_def)
  from publishOps_never_throws [of demo_runtime demo_offline "demo_config (Some ''feed'')" 0]
  obtain res w' evs where
    "publishOps demo_runtime demo_offline (demo_config (Some ''feed'')) (0, []) = (Inr res, w', evs)"
    and "\<forall>ev \<in> set evs. \<forall>e. thrown_of demo_runtime ev = Some e \<longrightarrow>
        ev = last evs \<and> res = failure e"
    by (elim exE conjE) (rule that)
  with demo_run_offline a b
  have offline: "?ev = last trace_offline"
    "demo_failed ''fetch failed'' = failure (JsError ''fetch failed'')"
    by auto
  have e: "gql_result demo_runtime (Inr (demo_response demo_nothing)) = Inr (Some demo_nothing)"
    by (simp add: demo_gql_result)
  have f: "space demo_nothing = None"
    by (simp add: demo_nothing_def)
  from publishOps_never_throws
    [of demo_runtime "demo_sdk True demo_nothing" "demo_config (Some ''feed'')" 0]
  obtain res w' evs where
    run: "publishOps demo_runtime (demo_sdk True demo_nothing) (demo_config (Some ''feed''))
        (0, []) = (Inr res, w', evs)"
    and site: "\<forall>sid resp. EvFetch (spaceQuery sid) resp \<in> set evs \<longrightarrow>
        (gql_result demo_runtime resp = Inr None \<longrightarrow>
           last evs = EvFetch (spaceQuery sid) resp \<and>
           res = failure (TypeError demo_runtime ''space'')) \<and>
        (\<forall>d. gql_result demo_runtime resp = Inr (Some d) \<longrightarrow> space d = None \<longrightarrow>
           last evs = EvFetch (spaceQuery sid) resp \<and>
           res = failure (JsError (''Space '' @ sid @ '' not found'')))"
    by (elim exE conjE) (rule that)
  from run demo_run_not_found have res: "res = ?res" and evs: "evs = ?tr"
    by simp_all
  from evs have "?ask \<in> set evs"
    by simp
  from site [rule_format, OF this, THEN conjunct2, rule_format, OF e f] res
  have missing: "?res = failure (JsError (''Space '' @ ''feed'' @ '' not found''))"
    by simp
  from demo_run_offline a b offline c demo_run_not_found e f missing show ?thesis
    by (intro conjI)
qed

subsection \<open>Submitted transactions\<close>

text \<open>
  C2, as the code has it. The claim that an invocation submits at most one transaction,
  and none when it fails before step 5, does not hold: with \<open>spaceId\<close> omitted and a
  wallet without a personal space, \<open>ensurePersonalSpace\<close> submits the transaction that
  creates the space before step 3, so a successful invocation submits two transactions
  and one that fails at the space lookup has already submitted one.
\<close>

theorem publishOps_single_submission_counterexample:
  "length (filter is_submission (snd (snd
     (publishOps demo_runtime (demo_sdk False demo_personal) (demo_config None) (0, []))))) = 2 \<and>
   fst (publishOps demo_runtime (demo_sdk False demo_nothing) (demo_config None) (0, [])) =
     Inr \<lparr>success = False, editId = None, cid = None, transactionHash = None, spaceId = None,
          error = Some ''Space ab54a98ceb1f0ad2ab54a98ceb1f0ad2 not found''\<rparr> \<and>
   filter (sent PublishTx) (snd (snd
     (publishOps demo_runtime (demo_sdk False demo_nothing) (demo_config None) (0, [])))) = [] \<and>
   length (filter is_submission (snd (snd
     (publishOps demo_runtime (demo_sdk False demo_nothing) (demo_config None) (0, []))))) = 1"
  by (simp add: demo_run_created demo_run_stranded trace_created_def trace_published_def
      demo_failed_def)

text \<open>
  C2, amended. Every invocation submits at most one publish transaction (step 5) and at
  most one transaction that creates a personal space; the latter only when \<open>spaceId\<close>
  is omitted or empty and \<open>personalSpace.hasSpace\<close> answered \<open>false\<close>. When
  \<open>spaceId\<close> is a non-empty string, the invocation submits at most one transaction,
  and none at all if it did not reach the submission of step 5.
\<close>

theorem publishOps_submissions:
  assumes "publishOps rt sdk config (w, []) = (r, w', evs)"
  shows "length (filter (sent PublishTx) evs) \<le> 1 \<and>
         length (filter (sent CreateSpaceTx) evs) \<le> 1 \<and>
         ((\<exists>ev \<in> set evs. sent CreateSpaceTx ev) \<longrightarrow>
            \<not> truthy (config_spaceId config) \<and> (\<exists>a. EvHasSpace a (Inr False) \<in> set evs)) \<and>
         (truthy (config_spaceId config) \<longrightarrow>
            length (filter is_submission evs) \<le> 1 \<and>
            ((\<forall>ev \<in> set evs. \<not> sent PublishTx ev) \<longrightarrow> (\<forall>ev \<in> set evs. \<not> is_submission ev)))"
  using assms
proof (cases rule: publishOps_run)
  case (target_failed e)
  from target_new_events [OF target_failed(1)]
  have tr1: "\<forall>ev \<in> set evs. target_event ev"
    "length (filter (sent CreateSpaceTx) evs) \<le> 1"
    "(\<exists>ev \<in> set evs. sent CreateSpaceTx ev) \<longrightarrow>
       \<not> truthy (config_spaceId config) \<and> (\<exists>a. EvHasSpace a (Inr False) \<in> set evs)"
    by auto
  from tr1(1) have none: "filter (sent PublishTx) evs = []"
    by (auto simp add: filter_empty_conv dest: target_event_kind(4))
  have sub: "filter is_submission evs = filter (sent CreateSpaceTx) evs"
    using tr1(1) by (intro filter_cong) (auto simp add: is_submission_iff dest: target_event_kind(4))
  from tr1 none sub show ?thesis
    by (auto simp add: is_submission_iff)
next
  case (published wc a sid w1 tr1 rb)
  from target_new_events [OF published(1)]
  have tr1: "\<forall>ev \<in> set tr1. target_event ev"
    "length (filter (sent CreateSpaceTx) tr1) \<le> 1"
    "(\<exists>ev \<in> set tr1. sent CreateSpaceTx ev) \<longrightarrow>
       \<not> truthy (config_spaceId config) \<and> (\<exists>a. EvHasSpace a (Inr False) \<in> set tr1)"
    by auto
  from publish_new_events [OF published(2)] obtain new where
    new: "evs = tr1 @ new" "\<forall>ev \<in> set new. publish_event ev"
    "length (filter (sent PublishTx) new) \<le> 1"
    by blast
  from tr1(1) have a: "filter (sent PublishTx) tr1 = []"
    by (auto simp add: filter_empty_conv dest: target_event_kind(4))
  from new(2) have b: "filter (sent CreateSpaceTx) new = []"
    by (auto simp add: filter_empty_conv dest: publish_event_kind(1))
  have c: "filter is_submission tr1 = filter (sent CreateSpaceTx) tr1"
    using tr1(1) by (intro filter_cong) (auto simp add: is_submission_iff dest: target_event_kind(4))
  have d: "filter is_submission new = filter (sent PublishTx) new"
    using new(2) by (intro filter_cong) (auto simp add: is_submission_iff dest: publish_event_kind(1))
  have e: "filter (sent CreateSpaceTx) tr1 = []" if "truthy (config_spaceId config)"
    using that tr1(3) by (auto simp add: filter_empty_conv)
  from tr1 new a b c d e show ?thesis
    by (auto simp add: filter_empty_conv is_submission_iff dest: target_event_kind(4) publish_event_kind(1))
qed

theorem publishOps_submissions_witness:
  "publishOps demo_runtime (demo_sdk False demo_personal) (demo_config None) (0, []) =
     (Inr (demo_published ''ab54a98ceb1f0ad2ab54a98ceb1f0ad2''), 10,
      trace_created @ trace_published ''ab54a98ceb1f0ad2ab54a98ceb1f0ad2'') \<and>
   length (filter (sent PublishTx)
     (trace_created @ trace_published ''ab54a98ceb1f0ad2ab54a98ceb1f0ad2'')) = 1 \<and>
   length (filter (sent CreateSpaceTx)
     (trace_created @ trace_published ''ab54a98ceb1f0ad2ab54a98ceb1f0ad2'')) = 1 \<and>
   (\<exists>ev \<in> set (trace_created @ trace_published ''ab54a98ceb1f0ad2ab54a98ceb1f0ad2'').
      sent CreateSpaceTx ev) \<and>
   \<not> truthy (config_spaceId (demo_config None)) \<and>
   EvHasSpace ''0xa11ce'' (Inr False) \<in>
     set (trace_created @ trace_published ''ab54a98ceb1f0ad2ab54a98ceb1f0ad2'') \<and>
   publishOps demo_runtime (demo_sdk True demo_outsider) (demo_config (Some ''feed'')) (0, []) =
     (Inr (demo_failed (not_member_message ''cafe'' ''feed'')), 3, trace_rejected demo_outsider) \<and>
   truthy (config_spaceId (demo_config (Some ''feed''))) \<and>
   filter (sent PublishTx) (trace_rejected demo_outsider) = [] \<and>
   filter is_submission (trace_rejected demo_outsider) = []"
proof -
  have a: "\<exists>ev \<in> set (trace_created @ trace_published ''ab54a98ceb1f0ad2ab54a98ceb1f0ad2'').
      sent CreateSpaceTx ev"
    by (simp add: trace_created_def)
  have b: "truthy (config_spaceId (demo_config (Some ''feed'')))"
    by (simp add: truthy_def demo_config_def)
  have c: "\<forall>ev \<in> set (trace_rejected demo_outsider). \<not> sent PublishTx ev"
    by (simp add: trace_rejected_def)
  have d: "length (filter (sent PublishTx)
      (trace_created @ trace_published ''ab54a98ceb1f0ad2ab54a98ceb1f0ad2'')) = 1"
    "length (filter (sent CreateSpaceTx)
      (trace_created @ trace_published ''ab54a98ceb1f0ad2ab54a98ceb1f0ad2'')) = 1"
    by (simp_all add: trace_created_def trace_published_def)
  from publishOps_submissions [OF demo_run_created] publishOps_submissions [OF demo_run_outsider]
  show ?thesis using demo_run_created demo_run_outsider a b c d
    by (auto simp add: trace_created_def filter_empty_conv)
qed

subsection \<open>The result envelope\<close>

text \<open>
  C6. Every result of \<open>publishOps\<close> with \<open>success: true\<close> has \<open>editId\<close>,
  \<open>cid\<close>, \<open>transactionHash\<close> and \<open>spaceId\<close> and no \<open>error\<close>; every
  result with \<open>success: false\<close> has \<open>error\<close> and none of the four other fields.
\<close>

theorem publishOps_result_shape:
  assumes "publishOps rt sdk config (w, []) = (r, w', evs)"
  shows "\<exists>res. r = Inr res \<and>
     (success res \<longrightarrow>
        editId res \<noteq> None \<and> cid res \<noteq> None \<and> transactionHash res \<noteq> None \<and>
        spaceId res \<noteq> None \<and> error res = None) \<and>
     (\<not> success res \<longrightarrow>
        error res \<noteq> None \<and> editId res = None \<and> cid res = None \<and>
        transactionHash res = None \<and> spaceId res = None)"
  using assms
proof (cases rule: publishOps_run)
  case (target_failed e)
  then show ?thesis
    by (simp add: failure_def)
next
  case (published wc a sid w1 tr1 rb)
  from publish_new_events [OF published(2)] published(3) show ?thesis
    by (cases rb) (auto simp add: failure_def)
qed

theorem publishOps_result_shape_witness:
  "publishOps demo_runtime (demo_sdk True demo_personal) (demo_config (Some ''feed'')) (0, []) =
     (Inr (demo_published ''feed''), 5,
      EvGetSmartAccountWalletClient ''0x5ec'' (Inr demo_wallet) # trace_published ''feed'') \<and>
   success (demo_published ''feed'') \<and>
   editId (demo_published ''feed'') = Some ''edit1'' \<and>
   cid (demo_published ''feed'') = Some ''ipfs://one'' \<and>
   transactionHash (demo_published ''feed'') = Some ''0x7a0xed17'' \<and>
   spaceId (demo_published ''feed'') = Some ''feed'' \<and>
   error (demo_published ''feed'') = None \<and>
   publishOps demo_runtime (demo_sdk True demo_outsider) (demo_config (Some ''feed'')) (0, []) =
     (Inr (demo_failed (not_member_message ''cafe'' ''feed'')), 3, trace_rejected demo_outsider) \<and>
   \<not> success (demo_failed (not_member_message ''cafe'' ''feed'')) \<and>
   error (demo_failed (not_member_message ''cafe'' ''feed'')) \<noteq> None \<and>
   editId (demo_failed (not_member_message ''cafe'' ''feed'')) = None \<and>
   cid (demo_failed (not_member_message ''cafe'' ''feed'')) = None \<and>
   transactionHash (demo_failed (not_member_message ''cafe'' ''feed'')) = None \<and>
   spaceId (demo_failed (not_member_message ''cafe'' ''feed'')) = None"
proof -
  have a: "success (demo_published ''feed'')"
    "\<not> success (demo_failed (not_member_message ''cafe'' ''feed''))"
    by (simp_all add: demo_published_def demo_failed_def)
  from publishOps_result_shape [OF demo_run_personal]
    publishOps_result_shape [OF demo_run_outsider]
  show ?thesis using demo_run_personal demo_run_outsider a
    by (auto simp add: demo_published_def)
qed

subsection \<open>Creating the personal space\<close>

text \<open>
  C7. Let \<open>spaceId\<close> be omitted, let the wallet client be obtained with an account, and
  let \<open>personalSpace.hasSpace\<close> answer \<open>false\<close> for the wallet's address. Then the
  invocation goes on with \<open>personalSpace.createSpace()\<close>, the submission of the creation
  transaction, the wait for its receipt and the lookup of the space id in the registry, in
  this order. If one of them fails, it is the last outside call and the result is the
  failure. If they all succeed, the next outside call is the request to the Space Directory
  for the space whose id is characters 2 to 33 of the registry's answer in lower case: the
  space is created before anything is published. A successful result has that id as
  \<open>spaceId\<close>, and when the directory answers with a \<open>PERSONAL\<close> space, the next
  outside call is \<open>personalSpace.publishEdit\<close> for that id.
\<close>

theorem publishOps_creates_personal_space:
  assumes "config_spaceId config = None"
    and "wallet_answer sdk config w = (Inr wc, w1)"
    and "account wc = Some acc"
    and "hasSpace sdk (address acc) w1 = (Inr False, w2)"
  shows "\<exists>r w' rest.
     publishOps rt sdk config (w, []) =
       (Inr r, w',
        wallet_event config (Inr wc) # EvHasSpace (address acc) (Inr False) # rest) \<and>
     (\<forall>e w3. createSpace sdk w2 = (Inl e, w3) \<longrightarrow>
        rest = [EvCreateSpace (Inl e)] \<and> r = failure e) \<and>
     (\<forall>tx w3. createSpace sdk w2 = (Inr tx, w3) \<longrightarrow>
        (\<forall>e w4. sendTransaction sdk wc tx w3 = (Inl e, w4) \<longrightarrow>
           rest = [EvCreateSpace (Inr tx), EvSendTransaction CreateSpaceTx tx (Inl e)] \<and>
           r = failure e) \<and>
        (\<forall>h w4. sendTransaction sdk wc tx w3 = (Inr h, w4) \<longrightarrow>
           (\<forall>e w5. waitForTransactionReceipt sdk h w4 = (Inl e, w5) \<longrightarrow>
              rest = [EvCreateSpace (Inr tx), EvSendTransaction CreateSpaceTx tx (Inr h),
                      EvWaitForTransactionReceipt h (Inl e)] \<and>
              r = failure e) \<and>
           (\<forall>w5. waitForTransactionReceipt sdk h w4 = (Inr (), w5) \<longrightarrow>
              (\<forall>e w6. addressToSpaceId sdk (address acc) w5 = (Inl e, w6) \<longrightarrow>
                 rest = [EvCreateSpace (Inr tx), EvSendTransaction CreateSpaceTx tx (Inr h),
                         EvWaitForTransactionReceipt h (Inr ()),
                         EvReadContract (address acc) (Inl e)] \<and>
                 r = failure e) \<and>
              (\<forall>hex w6 resp w7.
                 addressToSpaceId sdk (address acc) w5 = (Inr hex, w6) \<longrightarrow>
                 fetch sdk (spaceQuery (toLowerCase rt (slice 2 34 hex))) w6 = (resp, w7) \<longrightarrow>
                 (\<exists>rest'.
                    rest = [EvCreateSpace (Inr tx), EvSendTransaction CreateSpaceTx tx (Inr h),
                            EvWaitForTransactionReceipt h (Inr ()),
                            EvReadContract (address acc) (Inr hex),
                            EvFetch (spaceQuery (toLowerCase rt (slice 2 34 hex)))
                              (rejected resp)] @ rest' \<and>
                    (success r \<longrightarrow> spaceId r = Some (toLowerCase rt (slice 2 34 hex))) \<and>
                    (\<forall>d sp. gql_result rt (rejected resp) = Inr (Some d) \<longrightarrow>
                       space d = Some sp \<longrightarrow> spaceType sp = ''PERSONAL'' \<longrightarrow>
                       (\<exists>out w8 rest''.
                          publishEdit sdk
                            (edit_params config (toLowerCase rt (slice 2 34 hex)) (address acc))
                            w7 = (out, w8) \<and>
                          rest' =
                            EvPublishEdit
                              (edit_params config (toLowerCase rt (slice 2 34 hex))
                                 (address acc)) out # rest'')))))))"
proof -
  let ?a = "address acc"
  from assms(1) have falsy: "\<not> truthy (config_spaceId config)"
    by (simp add: truthy_def)
  obtain r w' evs where run: "publishOps rt sdk config (w, []) = (Inr r, w', evs)"
    by (rule publishOps_returns)
  from publishOps_begins [OF run falsy assms(2-4)] obtain rest where
    evs: "evs = wallet_event config (Inr wc) # EvHasSpace ?a (Inr False) # rest"
    by blast
  note fails = creation_fails [of config sdk w wc w1 acc w2, OF falsy assms(2-4)]
  have "(\<forall>e w3. createSpace sdk w2 = (Inl e, w3) \<longrightarrow>
        rest = [EvCreateSpace (Inl e)] \<and> r = failure e) \<and>
     (\<forall>tx w3. createSpace sdk w2 = (Inr tx, w3) \<longrightarrow>
        (\<forall>e w4. sendTransaction sdk wc tx w3 = (Inl e, w4) \<longrightarrow>
           rest = [EvCreateSpace (Inr tx), EvSendTransaction CreateSpaceTx tx (Inl e)] \<and>
           r = failure e) \<and>
        (\<forall>h w4. sendTransaction sdk wc tx w3 = (Inr h, w4) \<longrightarrow>
           (\<forall>e w5. waitForTransactionReceipt sdk h w4 = (Inl e, w5) \<longrightarrow>
              rest = [EvCreateSpace (Inr tx), EvSendTransaction CreateSpaceTx tx (Inr h),
                      EvWaitForTransactionReceipt h (Inl e)] \<and>
              r = failure e) \<and>
           (\<forall>w5. waitForTransactionReceipt sdk h w4 = (Inr (), w5) \<longrightarrow>
              (\<forall>e w6. addressToSpaceId sdk ?a w5 = (Inl e, w6) \<longrightarrow>
                 rest = [EvCreateSpace (Inr tx), EvSendTransaction CreateSpaceTx tx (Inr h),
                         EvWaitForTransactionReceipt h (Inr ()),
                         EvReadContract ?a (Inl e)] \<and>
                 r = failure e) \<and>
              (\<forall>hex w6 resp w7.
                 addressToSpaceId sdk ?a w5 = (Inr hex, w6) \<longrightarrow>
                 fetch sdk (spaceQuery (toLowerCase rt (slice 2 34 hex))) w6 = (resp, w7) \<longrightarrow>
                 (\<exists>rest'.
                    rest = [EvCreateSpace (Inr tx), EvSendTransaction CreateSpaceTx tx (Inr h),
                            EvWaitForTransactionReceipt h (Inr ()),
                            EvReadContract ?a (Inr hex),
                            EvFetch (spaceQuery (toLowerCase rt (slice 2 34 hex)))
                              (rejected resp)] @ rest' \<and>
                    (success r \<longrightarrow> spaceId r = Some (toLowerCase rt (slice 2 34 hex))) \<and>
                    (\<forall>d sp. gql_result rt (rejected resp) = Inr (Some d) \<longrightarrow>
                       space d = Some sp \<longrightarrow> spaceType sp = ''PERSONAL'' \<longrightarrow>
                       (\<exists>out w8 rest''.
                          publishEdit sdk
                            (edit_params config (toLowerCase rt (slice 2 34 hex)) ?a)
                            w7 = (out, w8) \<and>
                          rest' =
                            EvPublishEdit
                              (edit_params config (toLowerCase rt (slice 2 34 hex)) ?a)
                              out # rest'')))))))"
    (is ?chain)
  proof (intro conjI allI impI, goal_cases)
    case (1 e w3)
    from fails(1) [OF 1, of rt] run evs show ?case by simp
  next
    case (2 e w3)
    from fails(1) [OF 2, of rt] run evs show ?case by simp
  next
    case (3 tx w3 e w4)
    from fails(2) [OF 3, of rt] run evs show ?case by simp
  next
    case (4 tx w3 e w4)
    from fails(2) [OF 4, of rt] run evs show ?case by simp
  next
    case (5 tx w3 h w4 e w5)
    from fails(3) [OF 5, of rt] run evs show ?case by simp
  next
    case (6 tx w3 h w4 e w5)
    from fails(3) [OF 6, of rt] run evs show ?case by simp
  next
    case (7 tx w3 h w4 w5 e w6)
    from fails(4) [OF 7, of rt] run evs show ?case by simp
  next
    case (8 tx w3 h w4 w5 e w6)
    from fails(4) [OF 8, of rt] run evs show ?case by simp
  next
    case (9 tx w3 h w4 w5 hex w6 resp w7)
    let ?sid = "toLowerCase rt (slice 2 34 hex)"
    let ?evs2 = "[EvHasSpace ?a (Inr False), EvCreateSpace (Inr tx),
                  EvSendTransaction CreateSpaceTx tx (Inr h),
                  EvWaitForTransactionReceipt h (Inr ()), EvReadContract ?a (Inr hex)]"
    from falsy assms(4) 9 have "target_resolved rt sdk config wc ?a w1 ?sid w6 ?evs2"
      by (simp add: target_resolved_def space_created_iff)
    from resolved_run [OF assms(2,3) this 9(5)] run evs show ?case
      by auto
  qed
  moreover from run evs have "publishOps rt sdk config (w, []) =
       (Inr r, w', wallet_event config (Inr wc) # EvHasSpace ?a (Inr False) # rest)"
    by simp
  ultimately have "publishOps rt sdk config (w, []) =
       (Inr r, w', wallet_event config (Inr wc) # EvHasSpace ?a (Inr False) # rest) \<and>
     ?chain"
    by (rule conjI [rotated])
  then show ?thesis
    by (intro exI)
qed

theorem publishOps_creates_personal_space_witness:
  "config_spaceId (demo_config None) = None \<and>
   wallet_answer (demo_sdk False demo_personal) (demo_config None) 0 = (Inr demo_wallet, 1) \<and>
   account demo_wallet = Some \<lparr>address = ''0xa11ce''\<rparr> \<and>
   hasSpace (demo_sdk False demo_personal) ''0xa11ce'' 1 = (Inr False, 2) \<and>
   createSpace (demo_sdk False demo_personal) 2 =
     (Inr \<lparr>to = ''0x5eed'', calldata = ''0xc0de''\<rparr>, 3) \<and>
   sendTransaction (demo_sdk False demo_personal) demo_wallet
     \<lparr>to = ''0x5eed'', calldata = ''0xc0de''\<rparr> 3 = (Inr ''0x7a0xc0de'', 4) \<and>
   waitForTransactionReceipt (demo_sdk False demo_personal) ''0x7a0xc0de'' 4 = (Inr (), 5) \<and>
   addressToSpaceId (demo_sdk False demo_personal) ''0xa11ce'' 5 =
     (Inr ''0xAB54A98CEB1F0AD2AB54A98CEB1F0AD200000000'', 6) \<and>
   toLowerCase demo_runtime (slice 2 34 ''0xAB54A98CEB1F0AD2AB54A98CEB1F0AD200000000'') =
     ''ab54a98ceb1f0ad2ab54a98ceb1f0ad2'' \<and>
   fetch (demo_sdk False demo_personal) (spaceQuery ''ab54a98ceb1f0ad2ab54a98ceb1f0ad2'') 6 =
     (Inr (demo_response demo_personal), 7) \<and>
   publishOps demo_runtime (demo_sdk False demo_personal) (demo_config None) (0, []) =
     (Inr (demo_published ''ab54a98ceb1f0ad2ab54a98ceb1f0ad2''), 10,
      trace_created @ trace_published ''ab54a98ceb1f0ad2ab54a98ceb1f0ad2'') \<and>
   success (demo_published ''ab54a98ceb1f0ad2ab54a98ceb1f0ad2'') \<and>
   spaceId (demo_published ''ab54a98ceb1f0ad2ab54a98ceb1f0ad2'') =
     Some ''ab54a98ceb1f0ad2ab54a98ceb1f0ad2''"
proof -
  let ?sdk = "demo_sdk False demo_personal"
  let ?hex = "''0xAB54A98CEB1F0AD2AB54A98CEB1F0AD200000000''"
  let ?sid = "''ab54a98ceb1f0ad2ab54a98ceb1f0ad2''"
  let ?tx = "\<lparr>to = ''0x5eed'', calldata = ''0xc0de''\<rparr>"
  have a: "config_spaceId (demo_config None) = None"
    by (simp add: demo_config_def)
  have b: "wallet_answer ?sdk (demo_config None) 0 = (Inr demo_wallet, 1)"
    by (simp add: demo_wallet_answer)
  have c: "account demo_wallet = Some \<lparr>address = ''0xa11ce''\<rparr>"
    by (simp add: demo_wallet_answer)
  have d: "hasSpace ?sdk (address \<lparr>address = ''0xa11ce''\<rparr>) 1 = (Inr False, 2)"
    by (simp add: demo_sdk_def)
  have chain: "createSpace ?sdk 2 = (Inr ?tx, 3)"
    "sendTransaction ?sdk demo_wallet ?tx 3 = (Inr ''0x7a0xc0de'', 4)"
    "waitForTransactionReceipt ?sdk ''0x7a0xc0de'' 4 = (Inr (), 5)"
    "addressToSpaceId ?sdk ''0xa11ce'' 5 = (Inr ?hex, 6)"
    by (simp_all add: demo_sdk_def)
  have sid: "toLowerCase demo_runtime (slice 2 34 ?hex) = ?sid"
    by (simp add: demo_runtime_toLowerCase slice_def ascii_lower_def)
  have lookup: "fetch ?sdk (spaceQuery ?sid) 6 = (Inr (demo_response demo_personal), 7)"
    by (simp add: demo_fetch)
  have ok: "success (demo_published ?sid)"
    by (simp add: demo_published_def)
  from publishOps_creates_personal_space [OF a b c d, of demo_runtime]
  have "success (demo_published ?sid) \<longrightarrow> spaceId (demo_published ?sid) = Some ?sid"
    by (auto simp add: chain lookup sid demo_run_created)
  with a b c d chain sid lookup demo_run_created ok show ?thesis
    by simp
qed



subsection \<open>The empty string as target\<close>

text \<open>
  C8. An empty string as \<open>spaceId\<close> is falsy, so \<open>publishOps\<close> does with it exactly
  what it does when \<open>spaceId\<close> is omitted. Once the wallet client is obtained with an
  account, the next outside call is \<open>personalSpace.hasSpace\<close> for the wallet's address,
  the first call of \<open>ensurePersonalSpace\<close>. When the personal space is found, or
  created, the invocation then asks the Space Directory for the space with the id read from
  the registry (not for a space with id \<open>""\<close>); a successful result has that id as
  \<open>spaceId\<close>, and when the directory answers with a \<open>PERSONAL\<close> space, the next
  outside call is \<open>personalSpace.publishEdit\<close> for that id.
\<close>

theorem publishOps_empty_spaceId:
  assumes "config_spaceId config = Some ''''"
  shows "publishOps rt sdk config = publishOps rt sdk (config\<lparr>config_spaceId := None\<rparr>) \<and>
     (\<forall>w wc w1 acc.
        wallet_answer sdk config w = (Inr wc, w1) \<longrightarrow> account wc = Some acc \<longrightarrow>
        (\<exists>out w2 r w' rest.
           hasSpace sdk (address acc) w1 = (out, w2) \<and>
           publishOps rt sdk config (w, []) =
             (Inr r, w', wallet_event config (Inr wc) # EvHasSpace (address acc) out # rest)) \<and>
        (\<forall>sid w2 evs2 resp w3.
           space_found rt sdk (address acc) w1 sid w2 evs2 \<or>
           space_created rt sdk wc (address acc) w1 sid w2 evs2 \<longrightarrow>
           fetch sdk (spaceQuery sid) w2 = (resp, w3) \<longrightarrow>
           (\<exists>r w' rest.
              publishOps rt sdk config (w, []) =
                (Inr r, w',
                 wallet_event config (Inr wc) # evs2 @
                 EvFetch (spaceQuery sid) (rejected resp) # rest) \<and>
              (success r \<longrightarrow> spaceId r = Some sid) \<and>
              (\<forall>d sp. gql_result rt (rejected resp) = Inr (Some d) \<longrightarrow>
                 space d = Some sp \<longrightarrow> spaceType sp = ''PERSONAL'' \<longrightarrow>
                 (\<exists>out w4 rest'.
                    publishEdit sdk (edit_params config sid (address acc)) w3 = (out, w4) \<and>
                    rest = EvPublishEdit (edit_params config sid (address acc)) out # rest')))))"
proof (intro conjI allI impI)
  from assms have "config = config\<lparr>config_spaceId := Some ''''\<rparr>"
    by simp
  moreover have "publishOps rt sdk (config\<lparr>config_spaceId := Some ''''\<rparr>) =
      publishOps rt sdk (config\<lparr>config_spaceId := None\<rparr>)"
    by (simp add: publishOps_def truthy_def)
  ultimately show "publishOps rt sdk config = publishOps rt sdk (config\<lparr>config_spaceId := None\<rparr>)"
    by simp
next
  fix w wc w1 acc
  assume wallet: "wallet_answer sdk config w = (Inr wc, w1)" "account wc = Some acc"
  from assms have falsy: "\<not> truthy (config_spaceId config)"
    by (simp add: truthy_def)
  obtain out w2 where has: "hasSpace sdk (address acc) w1 = (out, w2)"
    by (cases "hasSpace sdk (address acc) w1")
  obtain r w' evs where run: "publishOps rt sdk config (w, []) = (Inr r, w', evs)"
    by (rule publishOps_returns)
  from publishOps_begins [OF run falsy wallet has] run has
  show "\<exists>out w2 r w' rest.
           hasSpace sdk (address acc) w1 = (out, w2) \<and>
           publishOps rt sdk config (w, []) =
             (Inr r, w', wallet_event config (Inr wc) # EvHasSpace (address acc) out # rest)"
    by auto
next
  fix w wc w1 acc sid w2 evs2 resp w3
  assume wallet: "wallet_answer sdk config w = (Inr wc, w1)" "account wc = Some acc"
    and resolved: "space_found rt sdk (address acc) w1 sid w2 evs2 \<or>
           space_created rt sdk wc (address acc) w1 sid w2 evs2"
    and lookup: "fetch sdk (spaceQuery sid) w2 = (resp, w3)"
  from assms resolved have "target_resolved rt sdk config wc (address acc) w1 sid w2 evs2"
    by (simp add: target_resolved_def truthy_def)
  from resolved_run [OF wallet this lookup]
  show "\<exists>r w' rest.
              publishOps rt sdk config (w, []) =
                (Inr r, w',
                 wallet_event config (Inr wc) # evs2 @
                 EvFetch (spaceQuery sid) (rejected resp) # rest) \<and>
              (success r \<longrightarrow> spaceId r = Some sid) \<and>
              (\<forall>d sp. gql_result rt (rejected resp) = Inr (Some d) \<longrightarrow>
                 space d = Some sp \<longrightarrow> spaceType sp = ''PERSONAL'' \<longrightarrow>
                 (\<exists>out w4 rest'.
                    publishEdit sdk (edit_params config sid (address acc)) w3 = (out, w4) \<and>
                    rest = EvPublishEdit (edit_params config sid (address acc)) out # rest'))" .
qed

theorem publishOps_empty_spaceId_witness:
  "config_spaceId (demo_config (Some '''')) = Some '''' \<and>
   wallet_answer (demo_sdk True demo_personal) (demo_config (Some '''')) 0 =
     (Inr demo_wallet, 1) \<and>
   account demo_wallet = Some \<lparr>address = ''0xa11ce''\<rparr> \<and>
   space_found demo_runtime (demo_sdk True demo_personal) ''0xa11ce'' 1
     ''ab54a98ceb1f0ad2ab54a98ceb1f0ad2'' 3
     [EvHasSpace ''0xa11ce'' (Inr True),
      EvReadContract ''0xa11ce'' (Inr ''0xAB54A98CEB1F0AD2AB54A98CEB1F0AD200000000'')] \<and>
   fetch (demo_sdk True demo_personal) (spaceQuery ''ab54a98ceb1f0ad2ab54a98ceb1f0ad2'') 3 =
     (Inr (demo_response demo_personal), 4) \<and>
   publishOps demo_runtime (demo_sdk True demo_personal) (demo_config (Some '''')) =
     publishOps demo_runtime (demo_sdk True demo_personal) (demo_config None) \<and>
   publishOps demo_runtime (demo_sdk True demo_personal) (demo_config (Some '''')) (0, []) =
     (Inr (demo_published ''ab54a98ceb1f0ad2ab54a98ceb1f0ad2''), 7,
      [EvGetSmartAccountWalletClient ''0x5ec'' (Inr demo_wallet),
       EvHasSpace ''0xa11ce'' (Inr True),
       EvReadContract ''0xa11ce'' (Inr ''0xAB54A98CEB1F0AD2AB54A98CEB1F0AD200000000'')] @
      trace_published ''ab54a98ceb1f0ad2ab54a98ceb1f0ad2'') \<and>
   spaceId (demo_published ''ab54a98ceb1f0ad2ab54a98ceb1f0ad2'') =
     Some ''ab54a98ceb1f0ad2ab54a98ceb1f0ad2''"
proof -
  let ?sdk = "demo_sdk True demo_personal"
  let ?hex = "''0xAB54A98CEB1F0AD2AB54A98CEB1F0AD200000000''"
  let ?sid = "''ab54a98ceb1f0ad2ab54a98ceb1f0ad2''"
  let ?found = "[EvHasSpace ''0xa11ce'' (Inr True), EvReadContract ''0xa11ce'' (Inr ?hex)]"
  have a: "config_spaceId (demo_config (Some '''')) = Some ''''"
    by (simp add: demo_config_def)
  have b: "wallet_answer ?sdk (demo_config (Some '''')) 0 = (Inr demo_wallet, 1)"
    by (simp add: demo_wallet_answer)
  have c: "account demo_wallet = Some \<lparr>address = ''0xa11ce''\<rparr>"
    by (simp add: demo_wallet_answer)
  have sid: "toLowerCase demo_runtime (slice 2 34 ?hex) = ?sid"
    by (simp add: demo_runtime_toLowerCase slice_def ascii_lower_def)
  have d: "space_found demo_runtime ?sdk ''0xa11ce'' 1 ?sid 3 ?found"
    unfolding space_found_iff
    by (intro exI [of _ 2] exI [of _ ?hex]) (simp add: demo_sdk_def sid)
  have e: "fetch ?sdk (spaceQuery ?sid) 3 = (Inr (demo_response demo_personal), 4)"
    by (simp add: demo_fetch)
  have none: "(demo_config (Some ''''))\<lparr>config_spaceId := None\<rparr> = demo_config None"
    by (simp add: demo_config_def)
  have ok: "success (demo_published ?sid)"
    by (simp add: demo_published_def)
  have found: "space_found demo_runtime ?sdk (address \<lparr>address = ''0xa11ce''\<rparr>) 1 ?sid 3 ?found"
    using d by simp
  note inst = publishOps_empty_spaceId [OF a, of demo_runtime ?sdk]
  from inst [THEN conjunct1] none
  have same: "publishOps demo_runtime ?sdk (demo_config (Some '''')) =
      publishOps demo_runtime ?sdk (demo_config None)"
    by simp
  note resolved =
    inst [THEN conjunct2, rule_format, OF b c, THEN conjunct2, rule_format, OF disjI1 [OF found] e]
  from resolved demo_run_found
  have "success (demo_published ?sid) \<longrightarrow> spaceId (demo_published ?sid) = Some ?sid"
    by auto
  with ok have "spaceId (demo_published ?sid) = Some ?sid"
    by simp
  with a b c d e same demo_run_found show ?thesis
    by simp
qed


end
